theory Spec2Isabelle
  imports Complex_Main "HOL-Library.Word"
begin

unbundle bit_operations_syntax

section \<open>The rough dielectric BSDF of src/bsdfs/roughdielectric.cpp\<close>

text \<open>
  The C++ type \<open>Float\<close> is modelled by \<^typ>\<open>real\<close>: every arithmetic operation is the
  exact one, and \<open>a / 0\<close> is HOL's \<open>0\<close> where the machine would produce an infinity or
  a NaN. A \<open>Spectrum\<close> is a value of a type \<open>'s\<close> of class \<open>real_algebra_1\<close>:
  \<open>Spectrum(c)\<close> is \<open>of_real c\<close>, and \<open>Spectrum * Float\<close> is \<open>*\<^sub>R\<close>. The intersection
  record \<open>bRec.its\<close> is a value of an arbitrary type \<open>'i\<close>, only handed to the textures.
\<close>

subsection \<open>Vectors of the local shading frame\<close>

text \<open>
  Modelled from the spec: the vector type and its operations are declared in the
  framework's headers, which are not part of the source file. Directions are triples
  in a frame whose z-axis is the shading normal, \<open>Frame::cosTheta\<close> reads the
  z-component, \<open>normalize\<close> divides a vector by its Euclidean length.
\<close>

datatype Vector = Vector (vx: real) (vy: real) (vz: real)

type_synonym Normal = Vector

type_synonym Point2 = "real \<times> real"

definition dot :: "Vector \<Rightarrow> Vector \<Rightarrow> real" where
  "dot a b = vx a * vx b + vy a * vy b + vz a * vz b"

definition vadd :: "Vector \<Rightarrow> Vector \<Rightarrow> Vector" where
  "vadd a b = Vector (vx a + vx b) (vy a + vy b) (vz a + vz b)"

definition vsub :: "Vector \<Rightarrow> Vector \<Rightarrow> Vector" where
  "vsub a b = Vector (vx a - vx b) (vy a - vy b) (vz a - vz b)"

definition vmul :: "real \<Rightarrow> Vector \<Rightarrow> Vector" where
  "vmul s a = Vector (s * vx a) (s * vy a) (s * vz a)"

definition vlength :: "Vector \<Rightarrow> real" where
  "vlength a = sqrt (dot a a)"

definition normalize :: "Vector \<Rightarrow> Vector" where
  "normalize a = vmul (1 / vlength a) a"

definition cosTheta :: "Vector \<Rightarrow> real" where
  "cosTheta v = vz v"

subsection \<open>The framework's enumerations, sampler and query record\<close>

text \<open>
  Modelled from the spec: the enumerations \<open>EMeasure\<close> and \<open>ETransportQuantity\<close> are
  declared in the framework's headers, which are not part of the source file. The
  source names only \<open>ESolidAngle\<close> and \<open>ERadiance\<close> and compares with them: a measure is
  the solid-angle one or another one, a transport quantity is radiance or importance.
\<close>

datatype EMeasure = ESolidAngle | ELength | EArea | EDiscrete

datatype ETransportQuantity = ERadiance | EImportance

text \<open>
  Modelled from the spec: the random source behind \<open>bRec.sampler\<close> is declared in the
  framework's headers. It is a fixed sequence of draws and the number of draws consumed
  so far; \<open>next1D\<close> returns the next draw and advances.
\<close>

record Sampler =
  draws :: "nat \<Rightarrow> real"
  sampleIndex :: nat

definition next1D :: "Sampler \<Rightarrow> real \<times> Sampler" where
  "next1D s = (draws s (sampleIndex s), s\<lparr>sampleIndex := sampleIndex s + 1\<rparr>)"

text \<open>
  Modelled from the spec: the query record is declared in the framework's headers. Its
  fields are the ones the source file reads and writes: the intersection, the incoming
  and outgoing directions, the component selector (\<open>-1\<close> for any), the type mask, the
  transport quantity, the sampler, and the component and type that sampling reports.
\<close>

record 'i BSDFQueryRecord =
  its :: 'i
  wi :: Vector
  wo :: Vector
  component :: int
  typeMask :: "32 word"
  quantity :: ETransportQuantity
  sampler :: Sampler
  sampledComponent :: int
  sampledType :: "32 word"

text \<open>
  What the source file uses of the framework and does not define: the function
  \<open>fresnel\<close>, the bits \<open>EGlossyReflection\<close> and \<open>EGlossyTransmission\<close> of the type
  mask, and \<open>Spectrum::average\<close>. They are parameters of the model.
\<close>

record 's Framework =
  fresnel :: "real \<Rightarrow> real \<Rightarrow> real \<Rightarrow> real"
  EGlossyReflection :: "32 word"
  EGlossyTransmission :: "32 word"
  average :: "'s \<Rightarrow> real"

text \<open>
  The microfacet distribution of \<open>microfacet.h\<close>, also a parameter: its roughness
  conversion, its density \<open>eval\<close>, its shadowing-masking term \<open>G\<close>, its sampling
  density \<open>pdf\<close> and its sampling routine \<open>sample\<close>.
\<close>

record MicrofacetDistribution =
  transformRoughness :: "real \<Rightarrow> real"
  md_eval :: "Vector \<Rightarrow> real \<Rightarrow> real \<Rightarrow> real"
  md_G :: "Vector \<Rightarrow> Vector \<Rightarrow> Vector \<Rightarrow> real \<Rightarrow> real \<Rightarrow> real"
  md_pdf :: "Vector \<Rightarrow> real \<Rightarrow> real \<Rightarrow> real"
  md_sample :: "Point2 \<Rightarrow> real \<Rightarrow> real \<Rightarrow> Normal"

subsection \<open>The class RoughDielectric\<close>

text \<open>A texture is its \<open>getValue\<close>: a function of the intersection record.\<close>

record ('i, 's) RoughDielectric =
  m_distribution :: MicrofacetDistribution
  m_specularTransmittance :: "'i \<Rightarrow> 's"
  m_specularReflectance :: "'i \<Rightarrow> 's"
  m_alphaU :: "'i \<Rightarrow> 's"
  m_alphaV :: "'i \<Rightarrow> 's"
  m_intIOR :: real
  m_extIOR :: real

datatype error = EError string

text \<open>
  The constructor from properties, after the lookups: the reflectance and
  transmittance spectra, the two indices of refraction returned by \<open>lookupIOR\<close>, the
  distribution, and the two roughness values. \<open>Log(EError, ...)\<close> throws.
\<close>

definition RoughDielectric_new ::
  "'s \<Rightarrow> 's \<Rightarrow> real \<Rightarrow> real \<Rightarrow> MicrofacetDistribution \<Rightarrow> real \<Rightarrow> real
    \<Rightarrow> error + ('i, 's::real_algebra_1) RoughDielectric" where
  "RoughDielectric_new specularReflectance specularTransmittance intIOR extIOR
      distribution alphaU alphaV =
    (if intIOR < 0 \<or> extIOR < 0 \<or> intIOR = extIOR
     then Inl (EError ''The interior and exterior indices of refraction must be positive and differ!'')
     else Inr \<lparr> m_distribution = distribution,
                m_specularTransmittance = (\<lambda>_. specularTransmittance),
                m_specularReflectance = (\<lambda>_. specularReflectance),
                m_alphaU = (\<lambda>_. of_real alphaU),
                m_alphaV = (if alphaU = alphaV then (\<lambda>_. of_real alphaU)
                            else (\<lambda>_. of_real alphaV)),
                m_intIOR = intIOR,
                m_extIOR = extIOR \<rparr>)"

definition signum :: "real \<Rightarrow> real" where
  "signum v = (if v < 0 then - 1 else 1)"

definition reflect :: "Vector \<Rightarrow> Normal \<Rightarrow> Vector" where
  "reflect wi_v m = vsub (vmul (2 * dot wi_v m) m) wi_v"

text \<open>
  \<open>refract\<close> returns \<open>false\<close> and leaves its output argument alone on total internal
  reflection: \<open>None\<close>. Otherwise it writes the transmitted direction: \<open>Some\<close>.
\<close>

definition refract :: "Vector \<Rightarrow> Normal \<Rightarrow> real \<Rightarrow> real \<Rightarrow> Vector option" where
  "refract wi_v m etaI etaT =
    (let eta = etaI / etaT;
         c = dot wi_v m;
         cosThetaTSqr = 1 + eta * eta * (c * c - 1)
     in if cosThetaTSqr < 0 then None
        else Some (vsub (vmul (eta * c - signum (vz wi_v) * sqrt cosThetaTSqr) m)
                        (vmul eta wi_v)))"

definition eval ::
  "'s Framework \<Rightarrow> ('i, 's) RoughDielectric \<Rightarrow> 'i BSDFQueryRecord \<Rightarrow> EMeasure
    \<Rightarrow> 's::real_algebra_1" where
  "eval fw this bRec meas =
    (if meas \<noteq> ESolidAngle then 0
     else
       let isReflect = cosTheta (wi bRec) * cosTheta (wo bRec) > 0;
           etaI = (if cosTheta (wi bRec) < 0 then m_intIOR this else m_extIOR this);
           etaT = (if cosTheta (wi bRec) < 0 then m_extIOR this else m_intIOR this)
       in
         if isReflect \<and> ((component bRec \<noteq> - 1 \<and> component bRec \<noteq> 0)
              \<or> typeMask bRec AND EGlossyReflection fw = 0) then 0
         else if \<not> isReflect \<and> ((component bRec \<noteq> - 1 \<and> component bRec \<noteq> 1)
              \<or> typeMask bRec AND EGlossyTransmission fw = 0) then 0
         else
           let H = (if isReflect
                    then vmul (signum (cosTheta (wo bRec))) (normalize (vadd (wo bRec) (wi bRec)))
                    else vmul (if m_extIOR this > m_intIOR this then 1 else - 1)
                           (normalize (vadd (vmul etaI (wi bRec)) (vmul etaT (wo bRec)))));
               alphaU = transformRoughness (m_distribution this)
                          (average fw (m_alphaU this (its bRec)));
               alphaV = transformRoughness (m_distribution this)
                          (average fw (m_alphaV this (its bRec)));
               D = md_eval (m_distribution this) H alphaU alphaV
           in
             if D = 0 then 0
             else
               let F = fresnel fw (dot (wi bRec) H) (m_extIOR this) (m_intIOR this);
                   G = md_G (m_distribution this) (wi bRec) (wo bRec) H alphaU alphaV
               in
                 if isReflect then
                   (let v = F * D * G / (4 * \<bar>cosTheta (wi bRec)\<bar>)
                    in v *\<^sub>R m_specularReflectance this (its bRec))
                 else
                   (let sqrtDenom = etaI * dot (wi bRec) H + etaT * dot (wo bRec) H;
                        v = ((1 - F) * D * G * etaT * etaT
                               * dot (wi bRec) H * dot (wo bRec) H)
                             / (cosTheta (wi bRec) * sqrtDenom * sqrtDenom);
                        v' = (if quantity bRec = ERadiance
                              then v * ((etaI * etaI) / (etaT * etaT)) else v)
                    in \<bar>v'\<bar> *\<^sub>R m_specularTransmittance this (its bRec)))"

definition pdf ::
  "'s Framework \<Rightarrow> ('i, 's) RoughDielectric \<Rightarrow> 'i BSDFQueryRecord \<Rightarrow> EMeasure \<Rightarrow> real" where
  "pdf fw this bRec meas =
    (if meas \<noteq> ESolidAngle then 0
     else
       let hasReflection = ((component bRec = - 1 \<or> component bRec = 0)
              \<and> typeMask bRec AND EGlossyReflection fw \<noteq> 0);
           hasTransmission = ((component bRec = - 1 \<or> component bRec = 1)
              \<and> typeMask bRec AND EGlossyTransmission fw \<noteq> 0);
           isReflect = cosTheta (wi bRec) * cosTheta (wo bRec) > 0;
           etaI = (if cosTheta (wi bRec) < 0 then m_intIOR this else m_extIOR this);
           etaT = (if cosTheta (wi bRec) < 0 then m_extIOR this else m_intIOR this)
       in
         if isReflect \<and> ((component bRec \<noteq> - 1 \<and> component bRec \<noteq> 0)
              \<or> typeMask bRec AND EGlossyReflection fw = 0) then 0
         else if \<not> isReflect \<and> ((component bRec \<noteq> - 1 \<and> component bRec \<noteq> 1)
              \<or> typeMask bRec AND EGlossyTransmission fw = 0) then 0
         else
           let H = (if isReflect
                    then vmul (signum (cosTheta (wo bRec))) (normalize (vadd (wo bRec) (wi bRec)))
                    else vmul (if m_extIOR this > m_intIOR this then 1 else - 1)
                           (normalize (vadd (vmul etaI (wi bRec)) (vmul etaT (wo bRec)))));
               dwh_dwo = (if isReflect then 1 / (4 * dot (wo bRec) H)
                          else (let sqrtDenom = etaI * dot (wi bRec) H + etaT * dot (wo bRec) H
                                in (etaT * etaT * dot (wo bRec) H) / (sqrtDenom * sqrtDenom)));
               alphaU0 = transformRoughness (m_distribution this)
                          (average fw (m_alphaU this (its bRec)));
               alphaV0 = transformRoughness (m_distribution this)
                          (average fw (m_alphaV this (its bRec)));
               factor = 1.2 - 0.2 * sqrt \<bar>cosTheta (wi bRec)\<bar>;
               alphaU = alphaU0 * factor;
               alphaV = alphaV0 * factor;
               prob0 = md_pdf (m_distribution this) H alphaU alphaV;
               prob = (if hasTransmission \<and> hasReflection
                       then (let F = fresnel fw (dot (wi bRec) H) (m_extIOR this) (m_intIOR this)
                             in prob0 * (if isReflect then F else 1 - F))
                       else prob0)
           in \<bar>prob * dwh_dwo\<bar>)"

text \<open>
  The two overloads of \<open>sample\<close> mutate the query record (the outgoing direction, the
  sampled component and type, and the sampler behind its pointer), so the model
  returns the updated record with the result. A \<open>return\<close> before the end of the
  function is the \<open>Inl\<close> of the branch, the fall-through to the common tail its \<open>Inr\<close>.
\<close>

definition sample ::
  "'s Framework \<Rightarrow> ('i, 's) RoughDielectric \<Rightarrow> 'i BSDFQueryRecord \<Rightarrow> Point2
    \<Rightarrow> ('s::real_algebra_1) \<times> 'i BSDFQueryRecord" where
  "sample fw this bRec smp =
    (let hasReflection = ((component bRec = - 1 \<or> component bRec = 0)
           \<and> typeMask bRec AND EGlossyReflection fw \<noteq> 0);
         hasTransmission = ((component bRec = - 1 \<or> component bRec = 1)
           \<and> typeMask bRec AND EGlossyTransmission fw \<noteq> 0)
     in
       if \<not> hasReflection \<and> \<not> hasTransmission then (0, bRec)
       else
         let alphaU = transformRoughness (m_distribution this)
                        (average fw (m_alphaU this (its bRec)));
             alphaV = transformRoughness (m_distribution this)
                        (average fw (m_alphaV this (its bRec)));
             factor = 1.2 - 0.2 * sqrt \<bar>cosTheta (wi bRec)\<bar>;
             sampleAlphaU = alphaU * factor;
             sampleAlphaV = alphaV * factor;
             m = md_sample (m_distribution this) smp sampleAlphaU sampleAlphaV;
             F = fresnel fw (dot (wi bRec) m) (m_extIOR this) (m_intIOR this);
             choseReflection =
               (if hasReflection \<and> hasTransmission
                then (if fst (next1D (sampler bRec)) > F then False else hasReflection)
                else hasReflection);
             bRec1 =
               (if hasReflection \<and> hasTransmission
                then bRec\<lparr>sampler := snd (next1D (sampler bRec))\<rparr>
                else bRec);
             branch =
               (if choseReflection then
                  (let bRec2 = bRec1\<lparr>wo := reflect (wi bRec1) m,
                                     sampledComponent := 0,
                                     sampledType := EGlossyReflection fw\<rparr>
                   in if cosTheta (wi bRec2) * cosTheta (wo bRec2) \<le> 0
                      then Inl (0, bRec2)
                      else Inr (m_specularReflectance this (its bRec2), bRec2))
                else
                  (let etaI = (if cosTheta (wi bRec1) < 0 then m_intIOR this
                               else m_extIOR this);
                       etaT = (if cosTheta (wi bRec1) < 0 then m_extIOR this
                               else m_intIOR this)
                   in case refract (wi bRec1) m etaI etaT of
                        None \<Rightarrow> Inl (0, bRec1)
                      | Some wo' \<Rightarrow>
                          (let bRec2 = bRec1\<lparr>wo := wo',
                                             sampledComponent := 1,
                                             sampledType := EGlossyTransmission fw\<rparr>
                           in if cosTheta (wi bRec2) * cosTheta (wo bRec2) \<ge> 0
                              then Inl (0, bRec2)
                              else Inr ((if quantity bRec2 = ERadiance
                                         then (etaI * etaI) / (etaT * etaT) else 1)
                                          *\<^sub>R m_specularTransmittance this (its bRec2),
                                        bRec2))))
         in case branch of
              Inl r \<Rightarrow> r
            | Inr (result, bRec3) \<Rightarrow>
                (let numerator = md_eval (m_distribution this) m alphaU alphaV
                       * md_G (m_distribution this) (wi bRec3) (wo bRec3) m alphaU alphaV
                       * dot (wi bRec3) m;
                     denominator = md_pdf (m_distribution this) m sampleAlphaU sampleAlphaV
                       * cosTheta (wi bRec3)
                 in (\<bar>numerator / denominator\<bar> *\<^sub>R result, bRec3)))"

text \<open>
  The overload with the output argument \<open>_pdf\<close>: the model takes the value the
  caller's variable holds and returns the value it holds afterwards, as the third
  component.
\<close>

definition sample_pdf ::
  "'s Framework \<Rightarrow> ('i, 's) RoughDielectric \<Rightarrow> 'i BSDFQueryRecord \<Rightarrow> real \<Rightarrow> Point2
    \<Rightarrow> ('s::real_algebra_1) \<times> 'i BSDFQueryRecord \<times> real" where
  "sample_pdf fw this bRec pdf_in smp =
    (let hasReflection = ((component bRec = - 1 \<or> component bRec = 0)
           \<and> typeMask bRec AND EGlossyReflection fw \<noteq> 0);
         hasTransmission = ((component bRec = - 1 \<or> component bRec = 1)
           \<and> typeMask bRec AND EGlossyTransmission fw \<noteq> 0)
     in
       if \<not> hasReflection \<and> \<not> hasTransmission then (0, bRec, pdf_in)
       else
         let alphaU = transformRoughness (m_distribution this)
                        (average fw (m_alphaU this (its bRec)));
             alphaV = transformRoughness (m_distribution this)
                        (average fw (m_alphaV this (its bRec)));
             factor = 1.2 - 0.2 * sqrt \<bar>cosTheta (wi bRec)\<bar>;
             sampleAlphaU = alphaU * factor;
             sampleAlphaV = alphaV * factor;
             m = md_sample (m_distribution this) smp sampleAlphaU sampleAlphaV;
             F = fresnel fw (dot (wi bRec) m) (m_extIOR this) (m_intIOR this);
             choseReflection =
               (if hasReflection \<and> hasTransmission
                then (if fst (next1D (sampler bRec)) > F then False else hasReflection)
                else hasReflection);
             bRec1 =
               (if hasReflection \<and> hasTransmission
                then bRec\<lparr>sampler := snd (next1D (sampler bRec))\<rparr>
                else bRec);
             branch =
               (if choseReflection then
                  (let bRec2 = bRec1\<lparr>wo := reflect (wi bRec1) m,
                                     sampledComponent := 0,
                                     sampledType := EGlossyReflection fw\<rparr>
                   in if cosTheta (wi bRec2) * cosTheta (wo bRec2) \<le> 0
                      then Inl (0, bRec2, pdf_in)
                      else Inr bRec2)
                else
                  (let etaI = (if cosTheta (wi bRec1) < 0 then m_intIOR this
                               else m_extIOR this);
                       etaT = (if cosTheta (wi bRec1) < 0 then m_extIOR this
                               else m_intIOR this)
                   in case refract (wi bRec1) m etaI etaT of
                        None \<Rightarrow> Inl (0, bRec1, pdf_in)
                      | Some wo' \<Rightarrow>
                          (let bRec2 = bRec1\<lparr>wo := wo',
                                             sampledComponent := 1,
                                             sampledType := EGlossyTransmission fw\<rparr>
                           in if cosTheta (wi bRec2) * cosTheta (wo bRec2) \<ge> 0
                              then Inl (0, bRec2, pdf_in)
                              else Inr bRec2)))
         in case branch of
              Inl r \<Rightarrow> r
            | Inr bRec3 \<Rightarrow>
                (let pdf_out = pdf fw this bRec3 ESolidAngle
                 in if pdf_out = 0 then (0, bRec3, pdf_out)
                    else (eval fw this bRec3 ESolidAngle, bRec3, pdf_out)))"

subsection \<open>Names for the source's sub-expressions\<close>

text \<open>
  \<open>pdf\<close> and both overloads of \<open>sample\<close> compute the same two flags from the
  component selector and the type mask; \<open>eval\<close> tests their negations. The
  properties below are stated with these names.
\<close>

definition hasReflection :: "'s Framework \<Rightarrow> 'i BSDFQueryRecord \<Rightarrow> bool" where
  "hasReflection fw bRec \<longleftrightarrow>
     (component bRec = - 1 \<or> component bRec = 0)
       \<and> typeMask bRec AND EGlossyReflection fw \<noteq> 0"

definition hasTransmission :: "'s Framework \<Rightarrow> 'i BSDFQueryRecord \<Rightarrow> bool" where
  "hasTransmission fw bRec \<longleftrightarrow>
     (component bRec = - 1 \<or> component bRec = 1)
       \<and> typeMask bRec AND EGlossyTransmission fw \<noteq> 0"

text \<open>
  The micro-normal both overloads of \<open>sample\<close> draw, the choice they make between
  reflection and transmission, the query record after the optional draw of that
  choice, the factor the first overload applies to the texture value of the chosen
  component, and the indices of refraction ordered by the side of \<open>wi\<close>.
\<close>

definition sampledNormal ::
  "'s Framework \<Rightarrow> ('i, 's) RoughDielectric \<Rightarrow> 'i BSDFQueryRecord \<Rightarrow> Point2 \<Rightarrow> Normal" where
  "sampledNormal fw this bRec smp =
     md_sample (m_distribution this) smp
       (transformRoughness (m_distribution this) (average fw (m_alphaU this (its bRec)))
          * (1.2 - 0.2 * sqrt \<bar>cosTheta (wi bRec)\<bar>))
       (transformRoughness (m_distribution this) (average fw (m_alphaV this (its bRec)))
          * (1.2 - 0.2 * sqrt \<bar>cosTheta (wi bRec)\<bar>))"

definition choseReflection ::
  "'s Framework \<Rightarrow> ('i, 's) RoughDielectric \<Rightarrow> 'i BSDFQueryRecord \<Rightarrow> Point2 \<Rightarrow> bool" where
  "choseReflection fw this bRec smp \<longleftrightarrow>
     (if hasReflection fw bRec \<and> hasTransmission fw bRec
      then (if fst (next1D (sampler bRec))
                 > fresnel fw (dot (wi bRec) (sampledNormal fw this bRec smp))
                     (m_extIOR this) (m_intIOR this)
            then False else hasReflection fw bRec)
      else hasReflection fw bRec)"

definition afterChoice :: "'s Framework \<Rightarrow> 'i BSDFQueryRecord \<Rightarrow> 'i BSDFQueryRecord" where
  "afterChoice fw bRec =
     (if hasReflection fw bRec \<and> hasTransmission fw bRec
      then bRec\<lparr>sampler := snd (next1D (sampler bRec))\<rparr> else bRec)"

definition sampleWeight ::
  "'s Framework \<Rightarrow> ('i, 's) RoughDielectric \<Rightarrow> 'i BSDFQueryRecord \<Rightarrow> Point2 \<Rightarrow> Vector \<Rightarrow> real" where
  "sampleWeight fw this bRec smp wo' =
     (let alphaU = transformRoughness (m_distribution this) (average fw (m_alphaU this (its bRec)));
          alphaV = transformRoughness (m_distribution this) (average fw (m_alphaV this (its bRec)));
          factor = 1.2 - 0.2 * sqrt \<bar>cosTheta (wi bRec)\<bar>;
          m = sampledNormal fw this bRec smp
      in \<bar>md_eval (m_distribution this) m alphaU alphaV
           * md_G (m_distribution this) (wi bRec) wo' m alphaU alphaV
           * dot (wi bRec) m
           / (md_pdf (m_distribution this) m (alphaU * factor) (alphaV * factor)
               * cosTheta (wi bRec))\<bar>)"

definition sideEtaI :: "('i, 's) RoughDielectric \<Rightarrow> 'i BSDFQueryRecord \<Rightarrow> real" where
  "sideEtaI this bRec = (if cosTheta (wi bRec) < 0 then m_intIOR this else m_extIOR this)"

definition sideEtaT :: "('i, 's) RoughDielectric \<Rightarrow> 'i BSDFQueryRecord \<Rightarrow> real" where
  "sideEtaT this bRec = (if cosTheta (wi bRec) < 0 then m_extIOR this else m_intIOR this)"

subsection \<open>The density as the specification words it for the second overload\<close>

text \<open>
  Written from the specification's sentence about the overload of \<open>sample\<close> that
  returns a density, not from the source: the density of \<open>pdf\<close> ``at the actual
  (non-widened) roughness'', that is, with the two roughness values as the textures
  and the roughness conversion give them, not scaled by the widening factor. It is
  compared below with what the source's overload returns.
\<close>

definition pdf_at_actual_roughness ::
  "'s Framework \<Rightarrow> ('i, 's) RoughDielectric \<Rightarrow> 'i BSDFQueryRecord \<Rightarrow> EMeasure \<Rightarrow> real" where
  "pdf_at_actual_roughness fw this bRec meas =
    (if meas \<noteq> ESolidAngle then 0
     else
       let hasR = hasReflection fw bRec;
           hasT = hasTransmission fw bRec;
           isReflect = cosTheta (wi bRec) * cosTheta (wo bRec) > 0;
           etaI = sideEtaI this bRec;
           etaT = sideEtaT this bRec
       in
         if isReflect \<and> \<not> hasR then 0
         else if \<not> isReflect \<and> \<not> hasT then 0
         else
           let H = (if isReflect
                    then vmul (signum (cosTheta (wo bRec))) (normalize (vadd (wo bRec) (wi bRec)))
                    else vmul (if m_extIOR this > m_intIOR this then 1 else - 1)
                           (normalize (vadd (vmul etaI (wi bRec)) (vmul etaT (wo bRec)))));
               Jacobian = (if isReflect then 1 / (4 * dot (wo bRec) H)
                           else (etaT\<^sup>2 * dot (wo bRec) H)
                                  / (etaI * dot (wi bRec) H + etaT * dot (wo bRec) H)\<^sup>2);
               alphaU = transformRoughness (m_distribution this)
                          (average fw (m_alphaU this (its bRec)));
               alphaV = transformRoughness (m_distribution this)
                          (average fw (m_alphaV this (its bRec)));
               D_pdf = md_pdf (m_distribution this) H alphaU alphaV;
               F = fresnel fw (dot (wi bRec) H) (m_extIOR this) (m_intIOR this)
           in if hasR \<and> hasT then \<bar>D_pdf * (if isReflect then F else 1 - F) * Jacobian\<bar>
              else \<bar>D_pdf * Jacobian\<bar>)"

subsection \<open>A concrete interface for closed instances\<close>

text \<open>
  A framework whose Fresnel term is the normal-incidence reflectance at every angle,
  a distribution that always samples the normal \<open>n\<close>, an interface with constant
  textures, and a query record. They instantiate the general theorems below.
\<close>

definition fw_ex :: "real Framework" where
  "fw_ex = \<lparr> fresnel = (\<lambda>c e i. ((e - i) / (e + i))\<^sup>2),
             EGlossyReflection = 4,
             EGlossyTransmission = 8,
             average = (\<lambda>s. s) \<rparr>"

definition dist_ex :: "Normal \<Rightarrow> MicrofacetDistribution" where
  "dist_ex n = \<lparr> transformRoughness = (\<lambda>a. a),
                 md_eval = (\<lambda>h u v. vz h / (u + v)),
                 md_G = (\<lambda>a b h u v. 1 / 2),
                 md_pdf = (\<lambda>h u v. u * vz h),
                 md_sample = (\<lambda>s u v. n) \<rparr>"

text \<open>
  The same distribution, except that its sampling density and its sampling routine
  answer as \<open>dist_ex\<close> only at the roughness pair \<open>(a, b)\<close>.
\<close>

definition dist_ex_at :: "real \<Rightarrow> real \<Rightarrow> Normal \<Rightarrow> MicrofacetDistribution" where
  "dist_ex_at a b n =
     (dist_ex n)\<lparr> md_pdf := (\<lambda>h u v. if u = a \<and> v = b then u * vz h else 0),
                   md_sample := (\<lambda>s u v. if u = a \<and> v = b then n else Vector 1 0 0) \<rparr>"

definition this_ex :: "Normal \<Rightarrow> real \<Rightarrow> real \<Rightarrow> (unit, real) RoughDielectric" where
  "this_ex n intIOR extIOR =
     \<lparr> m_distribution = dist_ex n,
       m_specularTransmittance = (\<lambda>_. 1 / 2),
       m_specularReflectance = (\<lambda>_. 1 / 4),
       m_alphaU = (\<lambda>_. 1 / 2),
       m_alphaV = (\<lambda>_. 1 / 2),
       m_intIOR = intIOR,
       m_extIOR = extIOR \<rparr>"

definition bRec_ex :: "Vector \<Rightarrow> Vector \<Rightarrow> int \<Rightarrow> 32 word \<Rightarrow> ETransportQuantity
    \<Rightarrow> real \<Rightarrow> unit BSDFQueryRecord" where
  "bRec_ex a b c t q u =
     \<lparr> its = (), wi = a, wo = b, component = c, typeMask = t, quantity = q,
       sampler = \<lparr> draws = (\<lambda>_. u), sampleIndex = 0 \<rparr>,
       sampledComponent = - 1, sampledType = 0 \<rparr>"

text \<open>
  The interface \<open>this_ex\<close> with the normal \<open>(0, 0, 1)\<close> and a distribution that answers
  only at the roughness pair \<open>(8/15, 8/15)\<close>.
\<close>

definition this_ex_at :: "real \<Rightarrow> real \<Rightarrow> (unit, real) RoughDielectric" where
  "this_ex_at intIOR extIOR =
     (this_ex (Vector 0 0 1) intIOR extIOR)
       \<lparr>m_distribution := dist_ex_at (8/15) (8/15) (Vector 0 0 1)\<rparr>"

section \<open>Helper lemmas\<close>


lemma vlength_z: "vlength (Vector 0 0 c) = \<bar>c\<bar>"
  by (simp add: vlength_def dot_def)

lemma transmission_value_forms:
  fixes a e p q c s :: real
  shows "a * e * e * p * q / (c * s * s) = a * e\<^sup>2 * p * q / (c * s\<^sup>2)"
  by (simp add: power2_eq_square mult.assoc)

lemma abs_times_eta_ratio:
  fixes x a b :: real
  shows "\<bar>x * ((a * a) / (b * b))\<bar> = \<bar>x\<bar> * (a / b)\<^sup>2"
  by (simp add: abs_mult power2_eq_square)

lemma afterChoice_fields [simp]:
  "its (afterChoice fw bRec) = its bRec"
  "wi (afterChoice fw bRec) = wi bRec"
  "wo (afterChoice fw bRec) = wo bRec"
  "component (afterChoice fw bRec) = component bRec"
  "typeMask (afterChoice fw bRec) = typeMask bRec"
  "quantity (afterChoice fw bRec) = quantity bRec"
  "sampledComponent (afterChoice fw bRec) = sampledComponent bRec"
  "sampledType (afterChoice fw bRec) = sampledType bRec"
  by (simp_all add: afterChoice_def)

lemma sample_unfold:
  "sample fw this bRec smp =
    (if \<not> hasReflection fw bRec \<and> \<not> hasTransmission fw bRec then (0, bRec)
     else if choseReflection fw this bRec smp then
       (let wo' = reflect (wi bRec) (sampledNormal fw this bRec smp);
            bRec2 = (afterChoice fw bRec)\<lparr>wo := wo', sampledComponent := 0,
                       sampledType := EGlossyReflection fw\<rparr>
        in if cosTheta (wi bRec) * cosTheta wo' \<le> 0 then (0, bRec2)
           else (sampleWeight fw this bRec smp wo' *\<^sub>R m_specularReflectance this (its bRec),
                 bRec2))
     else
       (case refract (wi bRec) (sampledNormal fw this bRec smp)
               (sideEtaI this bRec) (sideEtaT this bRec) of
          None \<Rightarrow> (0, afterChoice fw bRec)
        | Some wo' \<Rightarrow>
            (let bRec2 = (afterChoice fw bRec)\<lparr>wo := wo', sampledComponent := 1,
                            sampledType := EGlossyTransmission fw\<rparr>
             in if cosTheta (wi bRec) * cosTheta wo' \<ge> 0 then (0, bRec2)
                else (sampleWeight fw this bRec smp wo'
                        *\<^sub>R ((if quantity bRec = ERadiance
                              then (sideEtaI this bRec * sideEtaI this bRec)
                                     / (sideEtaT this bRec * sideEtaT this bRec)
                              else 1) *\<^sub>R m_specularTransmittance this (its bRec)),
                      bRec2))))"
  unfolding hasReflection_def hasTransmission_def choseReflection_def sampledNormal_def
    afterChoice_def sampleWeight_def sideEtaI_def sideEtaT_def sample_def Let_def
  by (simp split: option.splits)

lemma sample_pdf_unfold:
  "sample_pdf fw this bRec pdf_in smp =
    (if \<not> hasReflection fw bRec \<and> \<not> hasTransmission fw bRec then (0, bRec, pdf_in)
     else if choseReflection fw this bRec smp then
       (let wo' = reflect (wi bRec) (sampledNormal fw this bRec smp);
            bRec2 = (afterChoice fw bRec)\<lparr>wo := wo', sampledComponent := 0,
                       sampledType := EGlossyReflection fw\<rparr>
        in if cosTheta (wi bRec) * cosTheta wo' \<le> 0 then (0, bRec2, pdf_in)
           else if pdf fw this bRec2 ESolidAngle = 0 then (0, bRec2, 0)
           else (eval fw this bRec2 ESolidAngle, bRec2, pdf fw this bRec2 ESolidAngle))
     else
       (case refract (wi bRec) (sampledNormal fw this bRec smp)
               (sideEtaI this bRec) (sideEtaT this bRec) of
          None \<Rightarrow> (0, afterChoice fw bRec, pdf_in)
        | Some wo' \<Rightarrow>
            (let bRec2 = (afterChoice fw bRec)\<lparr>wo := wo', sampledComponent := 1,
                            sampledType := EGlossyTransmission fw\<rparr>
             in if cosTheta (wi bRec) * cosTheta wo' \<ge> 0 then (0, bRec2, pdf_in)
                else if pdf fw this bRec2 ESolidAngle = 0 then (0, bRec2, 0)
                else (eval fw this bRec2 ESolidAngle, bRec2, pdf fw this bRec2 ESolidAngle))))"
  unfolding hasReflection_def hasTransmission_def choseReflection_def sampledNormal_def
    afterChoice_def sideEtaI_def sideEtaT_def sample_pdf_def Let_def
  by (simp split: option.splits)

lemma refract_None_iff:
  "refract wi_v m etaI etaT = None \<longleftrightarrow> 1 + (etaI / etaT)\<^sup>2 * ((dot wi_v m)\<^sup>2 - 1) < 0"
  by (simp add: refract_def Let_def power2_eq_square)

lemma next1D_advances: "sampleIndex (snd (next1D s)) = sampleIndex s + 1"
  by (simp add: next1D_def)

lemma next1D_changes: "snd (next1D s) \<noteq> s"
proof
  assume "snd (next1D s) = s"
  then have "sampleIndex (snd (next1D s)) = sampleIndex s" by simp
  then show False by (simp add: next1D_advances)
qed

lemma sampler_afterChoice:
  "sampler (afterChoice fw bRec) =
     (if hasReflection fw bRec \<and> hasTransmission fw bRec
      then snd (next1D (sampler bRec)) else sampler bRec)"
  by (simp add: afterChoice_def)

lemma sampler_sample: "sampler (snd (sample fw this bRec smp)) = sampler (afterChoice fw bRec)"
  by (simp add: sample_unfold Let_def afterChoice_def split: option.splits)

lemma sampler_sample_pdf:
  "sampler (fst (snd (sample_pdf fw this bRec pdf_in smp))) = sampler (afterChoice fw bRec)"
  by (simp add: sample_pdf_unfold Let_def afterChoice_def split: option.splits)

lemma sampler_update_vocabulary [simp]:
  "hasReflection fw (bRec\<lparr>sampler := s'\<rparr>) = hasReflection fw bRec"
  "hasTransmission fw (bRec\<lparr>sampler := s'\<rparr>) = hasTransmission fw bRec"
  "sampledNormal fw this (bRec\<lparr>sampler := s'\<rparr>) smp = sampledNormal fw this bRec smp"
  "sideEtaI this (bRec\<lparr>sampler := s'\<rparr>) = sideEtaI this bRec"
  "sideEtaT this (bRec\<lparr>sampler := s'\<rparr>) = sideEtaT this bRec"
  "sampleWeight fw this (bRec\<lparr>sampler := s'\<rparr>) smp w = sampleWeight fw this bRec smp w"
  by (simp_all add: hasReflection_def hasTransmission_def sampledNormal_def sideEtaI_def
      sideEtaT_def sampleWeight_def)

lemma eval_ignores_sampler: "eval fw this (bRec\<lparr>sampler := s'\<rparr>) meas = eval fw this bRec meas"
  by (cases bRec) (simp only: eval_def Let_def BSDFQueryRecord.simps)

lemma pdf_ignores_sampler: "pdf fw this (bRec\<lparr>sampler := s'\<rparr>) meas = pdf fw this bRec meas"
  by (cases bRec) (simp only: pdf_def Let_def BSDFQueryRecord.simps)

lemma single_component_choice:
  assumes "\<not> (hasReflection fw bRec \<and> hasTransmission fw bRec)"
  shows "choseReflection fw this bRec smp = hasReflection fw bRec"
    and "choseReflection fw this (bRec\<lparr>sampler := s'\<rparr>) smp = hasReflection fw bRec"
    and "afterChoice fw bRec = bRec"
    and "afterChoice fw (bRec\<lparr>sampler := s'\<rparr>) = bRec\<lparr>sampler := s'\<rparr>"
  using assms by (auto simp add: choseReflection_def afterChoice_def)

lemma single_component_sample:
  assumes "\<not> (hasReflection fw bRec \<and> hasTransmission fw bRec)"
  shows "sample fw this (bRec\<lparr>sampler := s'\<rparr>) smp
           = (fst (sample fw this bRec smp), (snd (sample fw this bRec smp))\<lparr>sampler := s'\<rparr>)"
  by (simp add: sample_unfold single_component_choice [OF assms] Let_def split: option.splits)

lemma eval_pdf_ignore_sampler_written:
  "eval fw this (b\<lparr>sampler := s', wo := w, sampledComponent := c, sampledType := t\<rparr>) meas
     = eval fw this (b\<lparr>wo := w, sampledComponent := c, sampledType := t\<rparr>) meas"
  "pdf fw this (b\<lparr>sampler := s', wo := w, sampledComponent := c, sampledType := t\<rparr>) meas
     = pdf fw this (b\<lparr>wo := w, sampledComponent := c, sampledType := t\<rparr>) meas"
  by (cases b; simp only: eval_def pdf_def Let_def BSDFQueryRecord.simps)+

lemma single_component_sample_pdf:
  assumes "\<not> (hasReflection fw bRec \<and> hasTransmission fw bRec)"
  shows "fst (sample_pdf fw this (bRec\<lparr>sampler := s'\<rparr>) pdf_in smp)
           = fst (sample_pdf fw this bRec pdf_in smp)"
  by (simp add: sample_pdf_unfold single_component_choice [OF assms] Let_def
      eval_pdf_ignore_sampler_written split: option.splits)

lemma sqrt_four_ninths: "sqrt (4 / 9) = 2 / 3"
  by (rule real_sqrt_unique) (simp_all add: power2_eq_square)

lemma pdf_only_widened:
  fixes fw :: "'s::real_algebra_1 Framework" and this :: "('i, 's) RoughDielectric"
  assumes "\<And>h. md_pdf d' h
                (transformRoughness (m_distribution this) (average fw (m_alphaU this (its bRec)))
                   * (1.2 - 0.2 * sqrt \<bar>cosTheta (wi bRec)\<bar>))
                (transformRoughness (m_distribution this) (average fw (m_alphaV this (its bRec)))
                   * (1.2 - 0.2 * sqrt \<bar>cosTheta (wi bRec)\<bar>))
             = md_pdf (m_distribution this) h
                (transformRoughness (m_distribution this) (average fw (m_alphaU this (its bRec)))
                   * (1.2 - 0.2 * sqrt \<bar>cosTheta (wi bRec)\<bar>))
                (transformRoughness (m_distribution this) (average fw (m_alphaV this (its bRec)))
                   * (1.2 - 0.2 * sqrt \<bar>cosTheta (wi bRec)\<bar>))"
    and "transformRoughness d' = transformRoughness (m_distribution this)"
  shows "pdf fw (this\<lparr>m_distribution := d'\<rparr>) bRec meas = pdf fw this bRec meas"
  using assms by (simp add: pdf_def Let_def)

lemma eval_same_density:
  fixes fw :: "'s::real_algebra_1 Framework" and this :: "('i, 's) RoughDielectric"
  assumes "transformRoughness d' = transformRoughness (m_distribution this)"
    and "md_eval d' = md_eval (m_distribution this)"
    and "md_G d' = md_G (m_distribution this)"
  shows "eval fw (this\<lparr>m_distribution := d'\<rparr>) bRec meas = eval fw this bRec meas"
  using assms by (simp add: eval_def Let_def)

lemma vlength_unit_ex: "vlength (Vector (8/9) (1/9) (4/9)) = 1"
  by (simp add: vlength_def dot_def)

lemma reflect_ex: "reflect (Vector (8/9) (1/9) (4/9)) (Vector 0 0 1) = Vector (- (8/9)) (- (1/9)) (4/9)"
  by (simp add: reflect_def dot_def vmul_def vsub_def)


lemma ex_flags:
  "hasReflection fw_ex (bRec_ex a b (- 1) 4 q u)" "\<not> hasTransmission fw_ex (bRec_ex a b (- 1) 4 q u)"
  "\<not> hasReflection fw_ex (bRec_ex a b (- 1) 8 q u)" "hasTransmission fw_ex (bRec_ex a b (- 1) 8 q u)"
  "hasReflection fw_ex (bRec_ex a b (- 1) 12 q u)" "hasTransmission fw_ex (bRec_ex a b (- 1) 12 q u)"
  by (simp_all add: hasReflection_def hasTransmission_def fw_ex_def bRec_ex_def)

lemma ex_sampledNormal: "sampledNormal fw_ex (this_ex n a b) bRec smp = n"
  by (simp add: sampledNormal_def this_ex_def dist_ex_def)

lemma ex_written_flags:
  "hasReflection fw_ex ((bRec_ex a b (- 1) t q u)\<lparr>wo := w, sampledComponent := c, sampledType := y\<rparr>)
     = hasReflection fw_ex (bRec_ex a b (- 1) t q u)"
  "hasTransmission fw_ex ((bRec_ex a b (- 1) t q u)\<lparr>wo := w, sampledComponent := c, sampledType := y\<rparr>)
     = hasTransmission fw_ex (bRec_ex a b (- 1) t q u)"
  by (simp_all add: hasReflection_def hasTransmission_def)

lemma ex_pdf_reflected:
  "pdf fw_ex (this_ex (Vector 0 0 1) (3/2) 1)
     ((bRec_ex (Vector (8/9) (1/9) (4/9)) (Vector 0 0 0) (- 1) 4 ERadiance (1/2))
        \<lparr>wo := Vector (- (8/9)) (- (1/9)) (4/9), sampledComponent := 0, sampledType := 4\<rparr>)
     ESolidAngle = 3 / 10"
  by (simp add: pdf_def Let_def fw_ex_def this_ex_def dist_ex_def bRec_ex_def cosTheta_def
      signum_def normalize_def vadd_def vmul_def vlength_z dot_def sqrt_four_ninths)

lemma ex_eval_reflected:
  "eval fw_ex (this_ex (Vector 0 0 1) (3/2) 1)
     ((bRec_ex (Vector (8/9) (1/9) (4/9)) (Vector 0 0 0) (- 1) 4 ERadiance (1/2))
        \<lparr>wo := Vector (- (8/9)) (- (1/9)) (4/9), sampledComponent := 0, sampledType := 4\<rparr>)
     ESolidAngle = 9 / 3200"
  by (simp add: eval_def Let_def fw_ex_def this_ex_def dist_ex_def bRec_ex_def cosTheta_def
      signum_def normalize_def vadd_def vmul_def vlength_z dot_def power2_eq_square)

lemma ex_sample_pdf_reflected:
  "sample_pdf fw_ex (this_ex (Vector 0 0 1) (3/2) 1)
     (bRec_ex (Vector (8/9) (1/9) (4/9)) (Vector 0 0 0) (- 1) 4 ERadiance (1/2)) 0 (0, 0)
   = (9 / 3200,
      (bRec_ex (Vector (8/9) (1/9) (4/9)) (Vector 0 0 0) (- 1) 4 ERadiance (1/2))
        \<lparr>wo := Vector (- (8/9)) (- (1/9)) (4/9), sampledComponent := 0, sampledType := 4\<rparr>,
      3 / 10)"
proof -
  let ?rd = "this_ex (Vector 0 0 1) (3/2) 1"
  let ?b = "bRec_ex (Vector (8/9) (1/9) (4/9)) (Vector 0 0 0) (- 1) 4 ERadiance (1/2)"
  have w: "wi ?b = Vector (8/9) (1/9) (4/9)"
    by (simp add: bRec_ex_def)
  have chose: "choseReflection fw_ex ?rd ?b (0, 0)"
    by (simp add: choseReflection_def ex_flags)
  have same: "afterChoice fw_ex ?b = ?b"
    by (simp add: afterChoice_def ex_flags)
  have g: "EGlossyReflection fw_ex = 4"
    by (simp add: fw_ex_def)
  show ?thesis
    by (simp add: sample_pdf_unfold ex_flags chose ex_sampledNormal same w reflect_ex
        cosTheta_def g ex_pdf_reflected ex_eval_reflected Let_def)
qed

lemma refract_ex: "refract (Vector 0 0 1) (Vector 0 0 1) 1 (3/2) = Some (Vector 0 0 (- 1))"
  by (simp add: refract_def Let_def dot_def signum_def vmul_def vsub_def)

lemma reflect_normal_ex: "reflect (Vector 0 0 1) (Vector 0 0 1) = Vector 0 0 1"
  by (simp add: reflect_def dot_def vmul_def vsub_def)

lemma ex_sampleWeight_normal:
  "sampleWeight fw_ex (this_ex (Vector 0 0 1) (3/2) 1) (bRec_ex (Vector 0 0 1) b c t q u) smp w = 1"
  by (simp add: sampleWeight_def Let_def ex_sampledNormal)
    (simp add: this_ex_def dist_ex_def fw_ex_def bRec_ex_def cosTheta_def dot_def)

lemma pdf_reflective_branch:
  fixes fw :: "'s::real_algebra_1 Framework" and this :: "('i, 's) RoughDielectric"
  assumes "cosTheta (wi b) * cosTheta (wo b) > 0" and "hasReflection fw b"
    and "vmul (signum (cosTheta (wo b))) (normalize (vadd (wo b) (wi b))) = H"
  shows "pdf fw this b ESolidAngle =
     \<bar>md_pdf (m_distribution this) H
         (transformRoughness (m_distribution this) (average fw (m_alphaU this (its b)))
            * (1.2 - 0.2 * sqrt \<bar>cosTheta (wi b)\<bar>))
         (transformRoughness (m_distribution this) (average fw (m_alphaV this (its b)))
            * (1.2 - 0.2 * sqrt \<bar>cosTheta (wi b)\<bar>))
       * (if hasTransmission fw b
          then fresnel fw (dot (wi b) H) (m_extIOR this) (m_intIOR this) else 1)
       * (1 / (4 * dot (wo b) H))\<bar>"
  using assms by (auto simp add: pdf_def Let_def hasReflection_def hasTransmission_def)

lemma pdf_transmissive_branch:
  fixes fw :: "'s::real_algebra_1 Framework" and this :: "('i, 's) RoughDielectric"
  assumes "\<not> cosTheta (wi b) * cosTheta (wo b) > 0" and "hasTransmission fw b"
    and "vmul (if m_extIOR this > m_intIOR this then 1 else - 1)
           (normalize (vadd (vmul (sideEtaI this b) (wi b)) (vmul (sideEtaT this b) (wo b)))) = H"
  shows "pdf fw this b ESolidAngle =
     \<bar>md_pdf (m_distribution this) H
         (transformRoughness (m_distribution this) (average fw (m_alphaU this (its b)))
            * (1.2 - 0.2 * sqrt \<bar>cosTheta (wi b)\<bar>))
         (transformRoughness (m_distribution this) (average fw (m_alphaV this (its b)))
            * (1.2 - 0.2 * sqrt \<bar>cosTheta (wi b)\<bar>))
       * (if hasReflection fw b
          then 1 - fresnel fw (dot (wi b) H) (m_extIOR this) (m_intIOR this) else 1)
       * ((sideEtaT this b * sideEtaT this b * dot (wo b) H)
           / ((sideEtaI this b * dot (wi b) H + sideEtaT this b * dot (wo b) H)
              * (sideEtaI this b * dot (wi b) H + sideEtaT this b * dot (wo b) H)))\<bar>"
  using assms
  by (auto simp add: pdf_def Let_def hasReflection_def hasTransmission_def sideEtaI_def sideEtaT_def)

lemma sqrt_ex: "sqrt (1024 / 1089) = 32 / 33"
  by (rule real_sqrt_unique) (simp_all add: power2_eq_square)

lemma refract_ex_at:
  "refract (Vector (8/9) (1/9) (4/9)) (Vector 0 0 1) 1 (11/3)
     = Some (Vector (- (8/33)) (- (1/33)) (- (32/33)))"
  by (simp add: refract_def Let_def dot_def signum_def vmul_def vsub_def sqrt_ex)

section \<open>Construction\<close>

text \<open>
  C8 (the configuration check): construction must fail for every pair of indices that
  are not both strictly positive or that are equal. The constructor tests \<open>< 0\<close>, so an
  interior index of \<open>0\<close> with an exterior index of \<open>1\<close> is accepted, although the
  message of the check itself asks for positive indices.
\<close>

theorem RoughDielectric_new_accepts_zero_index:
  "RoughDielectric_new (1::real) 1 0 1 d (1/10) (1/10)
     = Inr (\<lparr> m_distribution = d,
               m_specularTransmittance = (\<lambda>_. 1),
               m_specularReflectance = (\<lambda>_. 1),
               m_alphaU = (\<lambda>_. 1/10),
               m_alphaV = (\<lambda>_. 1/10),
               m_intIOR = 0,
               m_extIOR = 1 \<rparr> :: ('i, real) RoughDielectric)"
  by (simp add: RoughDielectric_new_def)

section \<open>Evaluation\<close>



text \<open>
  C2 (the transmissive value): for a solid-angle query with the two directions on
  opposite sides, the transmissive component enabled and a nonzero density \<open>D\<close> at the
  transmission half-vector, \<open>eval\<close> returns the transmittance texture value times
  \<open>|(1 - F) * D * G * etaT\<^sup>2 * (wi . H) * (wo . H) / (cosTheta wi * (etaI * (wi . H) + etaT * (wo . H))\<^sup>2)|\<close>,
  with the indices swapped when \<open>cosTheta wi < 0\<close>, times \<open>(etaI / etaT)\<^sup>2\<close> exactly when
  the transport quantity is radiance.
\<close>

theorem eval_transmissive:
  fixes fw :: "'s::real_algebra_1 Framework" and this :: "('i, 's) RoughDielectric"
    and bRec :: "'i BSDFQueryRecord"
  defines "etaI \<equiv> (if cosTheta (wi bRec) < 0 then m_intIOR this else m_extIOR this)"
    and "etaT \<equiv> (if cosTheta (wi bRec) < 0 then m_extIOR this else m_intIOR this)"
  defines "H \<equiv> vmul (if m_extIOR this > m_intIOR this then 1 else - 1)
                   (normalize (vadd (vmul etaI (wi bRec)) (vmul etaT (wo bRec))))"
    and "alphaU \<equiv> transformRoughness (m_distribution this) (average fw (m_alphaU this (its bRec)))"
    and "alphaV \<equiv> transformRoughness (m_distribution this) (average fw (m_alphaV this (its bRec)))"
  defines "D \<equiv> md_eval (m_distribution this) H alphaU alphaV"
    and "F \<equiv> fresnel fw (dot (wi bRec) H) (m_extIOR this) (m_intIOR this)"
    and "G \<equiv> md_G (m_distribution this) (wi bRec) (wo bRec) H alphaU alphaV"
  defines "v \<equiv> \<bar>(1 - F) * D * G * etaT\<^sup>2 * dot (wi bRec) H * dot (wo bRec) H
                 / (cosTheta (wi bRec) * (etaI * dot (wi bRec) H + etaT * dot (wo bRec) H)\<^sup>2)\<bar>"
  assumes opposite: "cosTheta (wi bRec) * cosTheta (wo bRec) < 0"
    and enabled: "hasTransmission fw bRec"
    and dens: "D \<noteq> 0"
  shows "eval fw this bRec ESolidAngle
           = (if quantity bRec = ERadiance then v * (etaI / etaT)\<^sup>2 else v)
               *\<^sub>R m_specularTransmittance this (its bRec)"
proof -
  define sqrtDenom where "sqrtDenom = etaI * dot (wi bRec) H + etaT * dot (wo bRec) H"
  define v0 where "v0 = ((1 - F) * D * G * etaT * etaT * dot (wi bRec) H * dot (wo bRec) H)
                          / (cosTheta (wi bRec) * sqrtDenom * sqrtDenom)"
  have nr: "\<not> 0 < cosTheta (wi bRec) * cosTheta (wo bRec)"
    using opposite by simp
  have code: "eval fw this bRec ESolidAngle
      = \<bar>if quantity bRec = ERadiance then v0 * ((etaI * etaI) / (etaT * etaT)) else v0\<bar>
          *\<^sub>R m_specularTransmittance this (its bRec)"
    using enabled dens nr
    unfolding hasTransmission_def eval_def Let_def v0_def sqrtDenom_def D_def F_def G_def H_def alphaU_def
      alphaV_def etaI_def etaT_def
    by auto
  have "\<bar>v0\<bar> = v"
    unfolding v0_def v_def sqrtDenom_def by (simp only: transmission_value_forms)
  then have "\<bar>if quantity bRec = ERadiance then v0 * ((etaI * etaI) / (etaT * etaT)) else v0\<bar>
      = (if quantity bRec = ERadiance then v * (etaI / etaT)\<^sup>2 else v)"
    by (simp only: abs_times_eta_ratio if_distrib [of abs] cong: if_cong)
  then show ?thesis
    by (simp only: code)
qed

theorem eval_transmissive_witness:
  "eval fw_ex (this_ex (Vector 0 0 1) (3/2) 1)
        (bRec_ex (Vector 0 0 1) (Vector 0 0 (- 1)) (- 1) 12 ERadiance (1/2)) ESolidAngle = 24 / 25
   \<and> eval fw_ex (this_ex (Vector 0 0 1) (3/2) 1)
        (bRec_ex (Vector 0 0 1) (Vector 0 0 (- 1)) (- 1) 12 EImportance (1/2)) ESolidAngle = 54 / 25"
  using eval_transmissive [where fw = fw_ex
      and this = "this_ex (Vector 0 0 1) (3/2) 1"
      and bRec = "bRec_ex (Vector 0 0 1) (Vector 0 0 (- 1)) (- 1) 12 ERadiance (1/2)"]
    eval_transmissive [where fw = fw_ex
      and this = "this_ex (Vector 0 0 1) (3/2) 1"
      and bRec = "bRec_ex (Vector 0 0 1) (Vector 0 0 (- 1)) (- 1) 12 EImportance (1/2)"]
  by (simp add: fw_ex_def this_ex_def dist_ex_def bRec_ex_def hasTransmission_def cosTheta_def
      signum_def normalize_def vadd_def vmul_def vlength_z dot_def power2_eq_square)

section \<open>Density\<close>

text \<open>
  C3 (Fresnel weighting of the density): for a solid-angle query whose classification
  is enabled, \<open>pdf\<close> multiplies the sampling density of the micro-normal at the
  half-vector by \<open>F\<close> (reflective) or \<open>1 - F\<close> (transmissive) when both components are
  enabled, and returns \<open>|D_pdf * Jacobian|\<close> with no Fresnel factor otherwise, the
  Jacobian being \<open>1 / (4 * (wo . H))\<close> for reflection and
  \<open>etaT\<^sup>2 * (wo . H) / (etaI * (wi . H) + etaT * (wo . H))\<^sup>2\<close> for transmission.
\<close>

theorem pdf_fresnel_weighting:
  fixes fw :: "'s::real_algebra_1 Framework" and this :: "('i, 's) RoughDielectric"
    and bRec :: "'i BSDFQueryRecord"
  defines "isReflect \<equiv> cosTheta (wi bRec) * cosTheta (wo bRec) > 0"
    and "etaI \<equiv> (if cosTheta (wi bRec) < 0 then m_intIOR this else m_extIOR this)"
    and "etaT \<equiv> (if cosTheta (wi bRec) < 0 then m_extIOR this else m_intIOR this)"
  defines "H \<equiv> (if isReflect
                 then vmul (signum (cosTheta (wo bRec))) (normalize (vadd (wo bRec) (wi bRec)))
                 else vmul (if m_extIOR this > m_intIOR this then 1 else - 1)
                        (normalize (vadd (vmul etaI (wi bRec)) (vmul etaT (wo bRec)))))"
    and "factor \<equiv> 1.2 - 0.2 * sqrt \<bar>cosTheta (wi bRec)\<bar>"
  defines "D_pdf \<equiv> md_pdf (m_distribution this) H
             (transformRoughness (m_distribution this) (average fw (m_alphaU this (its bRec))) * factor)
             (transformRoughness (m_distribution this) (average fw (m_alphaV this (its bRec))) * factor)"
    and "F \<equiv> fresnel fw (dot (wi bRec) H) (m_extIOR this) (m_intIOR this)"
    and "Jacobian \<equiv> (if isReflect then 1 / (4 * dot (wo bRec) H)
                      else (etaT\<^sup>2 * dot (wo bRec) H)
                             / (etaI * dot (wi bRec) H + etaT * dot (wo bRec) H)\<^sup>2)"
  assumes enabled: "if isReflect then hasReflection fw bRec else hasTransmission fw bRec"
  shows "pdf fw this bRec ESolidAngle =
           (if hasReflection fw bRec \<and> hasTransmission fw bRec
            then \<bar>D_pdf * (if isReflect then F else 1 - F) * Jacobian\<bar>
            else \<bar>D_pdf * Jacobian\<bar>)"
proof (cases isReflect)
  case True
  then have r: "0 < cosTheta (wi bRec) * cosTheta (wo bRec)"
    by (simp add: isReflect_def)
  from True enabled have h: "hasReflection fw bRec" by simp
  show ?thesis
    using r h
    unfolding pdf_def Let_def D_pdf_def F_def Jacobian_def H_def factor_def isReflect_def
      hasReflection_def hasTransmission_def
    by (auto simp add: power2_eq_square)
next
  case False
  then have r: "\<not> 0 < cosTheta (wi bRec) * cosTheta (wo bRec)"
    by (simp add: isReflect_def)
  from False enabled have h: "hasTransmission fw bRec" by simp
  show ?thesis
    using r h
    unfolding pdf_def Let_def D_pdf_def F_def Jacobian_def H_def factor_def isReflect_def
      hasReflection_def hasTransmission_def etaI_def etaT_def
    by (auto simp add: power2_eq_square)
qed

theorem pdf_fresnel_weighting_witness:
  "pdf fw_ex (this_ex (Vector 0 0 1) (3/2) 1)
        (bRec_ex (Vector 0 0 1) (Vector 0 0 1) (- 1) 12 ERadiance (1/2)) ESolidAngle = 1 / 200
   \<and> pdf fw_ex (this_ex (Vector 0 0 1) (3/2) 1)
        (bRec_ex (Vector 0 0 1) (Vector 0 0 1) (- 1) 4 ERadiance (1/2)) ESolidAngle = 1 / 8
   \<and> pdf fw_ex (this_ex (Vector 0 0 1) (3/2) 1)
        (bRec_ex (Vector 0 0 1) (Vector 0 0 (- 1)) (- 1) 12 ERadiance (1/2)) ESolidAngle = 108 / 25
   \<and> pdf fw_ex (this_ex (Vector 0 0 1) (3/2) 1)
        (bRec_ex (Vector 0 0 1) (Vector 0 0 (- 1)) 1 12 ERadiance (1/2)) ESolidAngle = 9 / 2"
  using pdf_fresnel_weighting [where fw = fw_ex
      and this = "this_ex (Vector 0 0 1) (3/2) 1"
      and bRec = "bRec_ex (Vector 0 0 1) (Vector 0 0 1) (- 1) 12 ERadiance (1/2)"]
    pdf_fresnel_weighting [where fw = fw_ex
      and this = "this_ex (Vector 0 0 1) (3/2) 1"
      and bRec = "bRec_ex (Vector 0 0 1) (Vector 0 0 1) (- 1) 4 ERadiance (1/2)"]
    pdf_fresnel_weighting [where fw = fw_ex
      and this = "this_ex (Vector 0 0 1) (3/2) 1"
      and bRec = "bRec_ex (Vector 0 0 1) (Vector 0 0 (- 1)) (- 1) 12 ERadiance (1/2)"]
    pdf_fresnel_weighting [where fw = fw_ex
      and this = "this_ex (Vector 0 0 1) (3/2) 1"
      and bRec = "bRec_ex (Vector 0 0 1) (Vector 0 0 (- 1)) 1 12 ERadiance (1/2)"]
  by (simp add: fw_ex_def this_ex_def dist_ex_def bRec_ex_def hasTransmission_def hasReflection_def cosTheta_def
      signum_def normalize_def vadd_def vmul_def vlength_z dot_def power2_eq_square)

section \<open>Lobe widening\<close>

text \<open>
  C5 (one widened roughness for density and sampling): let both texture roughness
  values be scaled by the one factor \<open>1.2 - 0.2 * sqrt |cosTheta wi|\<close>. Then \<open>pdf\<close> returns
  \<open>|D_pdf(H) * Fresnel weight * Jacobian|\<close> with \<open>D_pdf\<close> the distribution's sampling density
  at the scaled pair. Both overloads of \<open>sample\<close> draw the micro-normal \<open>m\<close> from the
  distribution's sampling routine at the same scaled pair and write the direction
  reflected or refracted about that \<open>m\<close>; the first overload weights by
  \<open>|D(m) * G * (wi . m) / (D_pdf(m) * cosTheta wi)|\<close>, with \<open>D\<close> and \<open>G\<close> at the texture roughness
  and \<open>D_pdf\<close> at the scaled pair, and the second returns the density of \<open>pdf\<close>, again at
  the scaled pair.
\<close>

theorem widening_shared_by_pdf_and_sample:
  fixes fw :: "'s::real_algebra_1 Framework" and this :: "('i, 's) RoughDielectric"
    and bRec :: "'i BSDFQueryRecord" and smp :: Point2 and pdf_in :: real
  defines "factor \<equiv> 1.2 - 0.2 * sqrt \<bar>cosTheta (wi bRec)\<bar>"
    and "alphaU \<equiv> transformRoughness (m_distribution this) (average fw (m_alphaU this (its bRec)))"
    and "alphaV \<equiv> transformRoughness (m_distribution this) (average fw (m_alphaV this (its bRec)))"
    and "etaI \<equiv> (if cosTheta (wi bRec) < 0 then m_intIOR this else m_extIOR this)"
    and "etaT \<equiv> (if cosTheta (wi bRec) < 0 then m_extIOR this else m_intIOR this)"
    and "both \<equiv> hasReflection fw bRec \<and> hasTransmission fw bRec"
  defines "D_pdf \<equiv> (\<lambda>h. md_pdf (m_distribution this) h (alphaU * factor) (alphaV * factor))"
    and "m \<equiv> md_sample (m_distribution this) smp (alphaU * factor) (alphaV * factor)"
    and "H_r \<equiv> (\<lambda>w. vmul (signum (cosTheta w)) (normalize (vadd w (wi bRec))))"
    and "H_t \<equiv> (\<lambda>w. vmul (if m_extIOR this > m_intIOR this then 1 else - 1)
                       (normalize (vadd (vmul etaI (wi bRec)) (vmul etaT w))))"
    and "Fr \<equiv> (\<lambda>h. fresnel fw (dot (wi bRec) h) (m_extIOR this) (m_intIOR this))"
  defines "density_r \<equiv> (\<lambda>w. \<bar>D_pdf (H_r w) * (if both then Fr (H_r w) else 1)
                               * (1 / (4 * dot w (H_r w)))\<bar>)"
    and "density_t \<equiv> (\<lambda>w. \<bar>D_pdf (H_t w) * (if both then 1 - Fr (H_t w) else 1)
                               * ((etaT * etaT * dot w (H_t w))
                                    / ((etaI * dot (wi bRec) (H_t w) + etaT * dot w (H_t w))
                                       * (etaI * dot (wi bRec) (H_t w) + etaT * dot w (H_t w))))\<bar>)"
    and "weight \<equiv> (\<lambda>w. \<bar>md_eval (m_distribution this) m alphaU alphaV
                             * md_G (m_distribution this) (wi bRec) w m alphaU alphaV
                             * dot (wi bRec) m
                             / (D_pdf m * cosTheta (wi bRec))\<bar>)"
    and "choseR \<equiv> (if both then \<not> fst (next1D (sampler bRec)) > Fr m
                    else hasReflection fw bRec)"
    and "r1 \<equiv> sample fw this bRec smp"
    and "r2 \<equiv> sample_pdf fw this bRec pdf_in smp"
  shows "(cosTheta (wi bRec) * cosTheta (wo bRec) > 0 \<and> hasReflection fw bRec
            \<longrightarrow> pdf fw this bRec ESolidAngle = density_r (wo bRec))
       \<and> (\<not> cosTheta (wi bRec) * cosTheta (wo bRec) > 0 \<and> hasTransmission fw bRec
            \<longrightarrow> pdf fw this bRec ESolidAngle = density_t (wo bRec))
       \<and> (hasReflection fw bRec \<and> choseR \<longrightarrow>
            wo (snd r1) = reflect (wi bRec) m \<and> wo (fst (snd r2)) = reflect (wi bRec) m
          \<and> (cosTheta (wi bRec) * cosTheta (reflect (wi bRec) m) > 0 \<longrightarrow>
                fst r1 = weight (reflect (wi bRec) m) *\<^sub>R m_specularReflectance this (its bRec)
              \<and> snd (snd r2) = density_r (reflect (wi bRec) m)))
       \<and> (hasTransmission fw bRec \<and> \<not> choseR \<longrightarrow>
            (\<forall>w. refract (wi bRec) m etaI etaT = Some w \<longrightarrow>
               wo (snd r1) = w \<and> wo (fst (snd r2)) = w
             \<and> (cosTheta (wi bRec) * cosTheta w < 0 \<longrightarrow>
                   fst r1 = weight w *\<^sub>R ((if quantity bRec = ERadiance
                                           then (etaI * etaI) / (etaT * etaT) else 1)
                                          *\<^sub>R m_specularTransmittance this (its bRec))
                 \<and> snd (snd r2) = density_t w)))"
proof -
  have N: "sampledNormal fw this bRec smp = m"
    by (simp add: sampledNormal_def m_def alphaU_def alphaV_def factor_def)
  have C: "choseReflection fw this bRec smp = choseR"
    by (simp add: choseReflection_def choseR_def both_def N Fr_def)
  have E: "sideEtaI this bRec = etaI" "sideEtaT this bRec = etaT"
    by (simp_all add: sideEtaI_def sideEtaT_def etaI_def etaT_def)
  have W: "sampleWeight fw this bRec smp w = weight w" for w
    by (simp add: sampleWeight_def Let_def N weight_def D_pdf_def alphaU_def alphaV_def factor_def)
  have P_r: "pdf fw this b ESolidAngle = density_r (wo b)"
    if "cosTheta (wi b) * cosTheta (wo b) > 0" "hasReflection fw b"
      "wi b = wi bRec" "its b = its bRec" "hasTransmission fw b = hasTransmission fw bRec"
      "hasReflection fw b = hasReflection fw bRec"
    for b
    using pdf_reflective_branch [OF that(1,2) refl, of this] that(2-6)
    by (simp add: density_r_def D_pdf_def H_r_def Fr_def both_def alphaU_def alphaV_def factor_def
        cong: if_cong)
  have P_t: "pdf fw this b ESolidAngle = density_t (wo b)"
    if "\<not> cosTheta (wi b) * cosTheta (wo b) > 0" "hasTransmission fw b"
      "wi b = wi bRec" "its b = its bRec" "hasReflection fw b = hasReflection fw bRec"
      "hasTransmission fw b = hasTransmission fw bRec"
    for b
    using pdf_transmissive_branch [OF that(1,2) refl, of this] that(2-6)
    by (simp add: density_t_def D_pdf_def H_t_def Fr_def both_def alphaU_def alphaV_def factor_def
        sideEtaI_def sideEtaT_def etaI_def etaT_def cong: if_cong)
  have flags: "hasReflection fw ((afterChoice fw bRec)\<lparr>wo := w, sampledComponent := c,
                   sampledType := t\<rparr>) = hasReflection fw bRec"
    "hasTransmission fw ((afterChoice fw bRec)\<lparr>wo := w, sampledComponent := c,
                   sampledType := t\<rparr>) = hasTransmission fw bRec" for w c t
    by (simp_all add: hasReflection_def hasTransmission_def)
  have A1: "cosTheta (wi bRec) * cosTheta (wo bRec) > 0 \<and> hasReflection fw bRec
            \<longrightarrow> pdf fw this bRec ESolidAngle = density_r (wo bRec)"
    using P_r [of bRec] by simp
  have A2: "\<not> cosTheta (wi bRec) * cosTheta (wo bRec) > 0 \<and> hasTransmission fw bRec
            \<longrightarrow> pdf fw this bRec ESolidAngle = density_t (wo bRec)"
    using P_t [of bRec] by simp
  have B: "wo (snd r1) = reflect (wi bRec) m \<and> wo (fst (snd r2)) = reflect (wi bRec) m
          \<and> (cosTheta (wi bRec) * cosTheta (reflect (wi bRec) m) > 0 \<longrightarrow>
                fst r1 = weight (reflect (wi bRec) m) *\<^sub>R m_specularReflectance this (its bRec)
              \<and> snd (snd r2) = density_r (reflect (wi bRec) m))"
    if h: "hasReflection fw bRec" "choseR"
  proof -
    let ?b2 = "(afterChoice fw bRec)\<lparr>wo := reflect (wi bRec) m, sampledComponent := 0,
                 sampledType := EGlossyReflection fw\<rparr>"
    have p: "pdf fw this ?b2 ESolidAngle = density_r (reflect (wi bRec) m)"
      if "cosTheta (wi bRec) * cosTheta (reflect (wi bRec) m) > 0"
      using P_r [of ?b2] that h(1) by (simp add: flags)
    show ?thesis
      using h p unfolding r1_def r2_def
      by (simp add: sample_unfold sample_pdf_unfold N C W Let_def not_le)
  qed
  have T: "wo (snd r1) = w \<and> wo (fst (snd r2)) = w
             \<and> (cosTheta (wi bRec) * cosTheta w < 0 \<longrightarrow>
                   fst r1 = weight w *\<^sub>R ((if quantity bRec = ERadiance
                                           then (etaI * etaI) / (etaT * etaT) else 1)
                                          *\<^sub>R m_specularTransmittance this (its bRec))
                 \<and> snd (snd r2) = density_t w)"
    if h: "hasTransmission fw bRec" "\<not> choseR" "refract (wi bRec) m etaI etaT = Some w" for w
  proof -
    let ?b2 = "(afterChoice fw bRec)\<lparr>wo := w, sampledComponent := 1,
                 sampledType := EGlossyTransmission fw\<rparr>"
    have p: "pdf fw this ?b2 ESolidAngle = density_t w"
      if "cosTheta (wi bRec) * cosTheta w < 0"
      using P_t [of ?b2] that h(1) by (simp add: flags)
    show ?thesis
      using h p unfolding r1_def r2_def
      by (simp add: sample_unfold sample_pdf_unfold N C E W Let_def not_le)
  qed
  show ?thesis
    using A1 A2 B T by blast
qed

theorem widening_shared_by_pdf_and_sample_witness:
  "pdf fw_ex (this_ex_at (3/2) 1)
      (bRec_ex (Vector (8/9) (1/9) (4/9)) (Vector (- (8/9)) (- (1/9)) (4/9)) (- 1) 4 ERadiance (1/2))
      ESolidAngle = 3 / 10
   \<and> wo (snd (sample fw_ex (this_ex_at (3/2) 1)
      (bRec_ex (Vector (8/9) (1/9) (4/9)) (Vector (- (8/9)) (- (1/9)) (4/9)) (- 1) 4 ERadiance (1/2))
      (0, 0))) = Vector (- (8/9)) (- (1/9)) (4/9)
   \<and> fst (sample fw_ex (this_ex_at (3/2) 1)
      (bRec_ex (Vector (8/9) (1/9) (4/9)) (Vector (- (8/9)) (- (1/9)) (4/9)) (- 1) 4 ERadiance (1/2))
      (0, 0)) = 15 / 64
   \<and> snd (snd (sample_pdf fw_ex (this_ex_at (3/2) 1)
      (bRec_ex (Vector (8/9) (1/9) (4/9)) (Vector (- (8/9)) (- (1/9)) (4/9)) (- 1) 4 ERadiance (1/2))
      7 (0, 0))) = 3 / 10
   \<and> pdf fw_ex (this_ex_at (11/3) 1)
      (bRec_ex (Vector (8/9) (1/9) (4/9)) (Vector (- (8/33)) (- (1/33)) (- (32/33))) (- 1) 8 ERadiance (1/2))
      ESolidAngle = 176 / 245
   \<and> wo (snd (sample fw_ex (this_ex_at (11/3) 1)
      (bRec_ex (Vector (8/9) (1/9) (4/9)) (Vector (- (8/33)) (- (1/33)) (- (32/33))) (- 1) 8 ERadiance (1/2))
      (0, 0))) = Vector (- (8/33)) (- (1/33)) (- (32/33))
   \<and> fst (sample fw_ex (this_ex_at (11/3) 1)
      (bRec_ex (Vector (8/9) (1/9) (4/9)) (Vector (- (8/33)) (- (1/33)) (- (32/33))) (- 1) 8 ERadiance (1/2))
      (0, 0)) = 135 / 3872
   \<and> snd (snd (sample_pdf fw_ex (this_ex_at (11/3) 1)
      (bRec_ex (Vector (8/9) (1/9) (4/9)) (Vector (- (8/33)) (- (1/33)) (- (32/33))) (- 1) 8 ERadiance (1/2))
      7 (0, 0))) = 176 / 245"
proof -
  let ?r = "bRec_ex (Vector (8/9) (1/9) (4/9)) (Vector (- (8/9)) (- (1/9)) (4/9)) (- 1) 4
              ERadiance (1/2)"
  let ?t = "bRec_ex (Vector (8/9) (1/9) (4/9)) (Vector (- (8/33)) (- (1/33)) (- (32/33))) (- 1) 8
              ERadiance (1/2)"
  have R: "pdf fw_ex (this_ex_at (3/2) 1) ?r ESolidAngle = 3 / 10
      \<and> wo (snd (sample fw_ex (this_ex_at (3/2) 1) ?r (0, 0))) = Vector (- (8/9)) (- (1/9)) (4/9)
      \<and> fst (sample fw_ex (this_ex_at (3/2) 1) ?r (0, 0)) = 15 / 64
      \<and> snd (snd (sample_pdf fw_ex (this_ex_at (3/2) 1) ?r 7 (0, 0))) = 3 / 10"
    using widening_shared_by_pdf_and_sample [where fw = fw_ex and this = "this_ex_at (3/2) 1"
        and bRec = ?r and smp = "(0, 0)" and pdf_in = 7]
    by (simp add: ex_flags)
      (simp add: this_ex_at_def this_ex_def dist_ex_at_def dist_ex_def fw_ex_def bRec_ex_def
        cosTheta_def sqrt_four_ninths reflect_ex signum_def normalize_def vadd_def vmul_def
        vlength_z dot_def)
  have T: "pdf fw_ex (this_ex_at (11/3) 1) ?t ESolidAngle = 176 / 245
      \<and> wo (snd (sample fw_ex (this_ex_at (11/3) 1) ?t (0, 0)))
          = Vector (- (8/33)) (- (1/33)) (- (32/33))
      \<and> fst (sample fw_ex (this_ex_at (11/3) 1) ?t (0, 0)) = 135 / 3872
      \<and> snd (snd (sample_pdf fw_ex (this_ex_at (11/3) 1) ?t 7 (0, 0))) = 176 / 245"
    using widening_shared_by_pdf_and_sample [where fw = fw_ex and this = "this_ex_at (11/3) 1"
        and bRec = ?t and smp = "(0, 0)" and pdf_in = 7]
    by (simp add: ex_flags)
      (simp add: this_ex_at_def this_ex_def dist_ex_at_def dist_ex_def fw_ex_def bRec_ex_def
        cosTheta_def sqrt_four_ninths refract_ex_at signum_def normalize_def vadd_def vmul_def
        vlength_z dot_def)
  show ?thesis
    using R T by (simp only: simp_thms)
qed

text \<open>
  No other roughness reaches the distribution's sampling density or sampling routine:
  a distribution that agrees with the configured one at the scaled pair (and in its
  roughness conversion, its density \<open>D\<close> and its term \<open>G\<close>) gives the same \<open>pdf\<close> and the
  same results of both overloads of \<open>sample\<close>.
\<close>

lemma distribution_read_only_at_widened_roughness:
  fixes fw :: "'s::real_algebra_1 Framework" and this :: "('i, 's) RoughDielectric"
    and bRec :: "'i BSDFQueryRecord" and smp :: Point2 and pdf_in :: real
    and d' :: MicrofacetDistribution
  defines "factor \<equiv> 1.2 - 0.2 * sqrt \<bar>cosTheta (wi bRec)\<bar>"
  defines "wU \<equiv> transformRoughness (m_distribution this) (average fw (m_alphaU this (its bRec)))
                  * factor"
    and "wV \<equiv> transformRoughness (m_distribution this) (average fw (m_alphaV this (its bRec)))
                  * factor"
  assumes same_pdf: "\<And>h. md_pdf d' h wU wV = md_pdf (m_distribution this) h wU wV"
    and same_sample: "\<And>s. md_sample d' s wU wV = md_sample (m_distribution this) s wU wV"
    and same_roughness: "transformRoughness d' = transformRoughness (m_distribution this)"
    and same_eval: "md_eval d' = md_eval (m_distribution this)"
    and same_G: "md_G d' = md_G (m_distribution this)"
  shows "pdf fw (this\<lparr>m_distribution := d'\<rparr>) bRec meas = pdf fw this bRec meas
       \<and> sample fw (this\<lparr>m_distribution := d'\<rparr>) bRec smp = sample fw this bRec smp
       \<and> sample_pdf fw (this\<lparr>m_distribution := d'\<rparr>) bRec pdf_in smp
           = sample_pdf fw this bRec pdf_in smp"
proof -
  let ?this' = "this\<lparr>m_distribution := d'\<rparr>"
  have p: "pdf fw ?this' b meas' = pdf fw this b meas'"
    if "its b = its bRec" and "wi b = wi bRec" for b meas'
    by (rule pdf_only_widened)
      (use that same_pdf same_roughness in \<open>simp_all add: wU_def wV_def factor_def\<close>)
  have e: "eval fw ?this' b meas' = eval fw this b meas'" for b meas'
    by (rule eval_same_density) (use same_roughness same_eval same_G in simp_all)
  have n: "sampledNormal fw ?this' bRec smp = sampledNormal fw this bRec smp"
    using same_sample same_roughness
    by (simp add: sampledNormal_def wU_def wV_def factor_def)
  have c: "choseReflection fw ?this' bRec smp = choseReflection fw this bRec smp"
    by (simp add: choseReflection_def n)
  have w: "sampleWeight fw ?this' bRec smp v = sampleWeight fw this bRec smp v" for v
    using same_pdf same_roughness same_eval same_G
    by (simp add: sampleWeight_def Let_def n wU_def wV_def factor_def)
  have eta: "sideEtaI ?this' bRec = sideEtaI this bRec" "sideEtaT ?this' bRec = sideEtaT this bRec"
    by (simp_all add: sideEtaI_def sideEtaT_def)
  have s1: "sample fw ?this' bRec smp = sample fw this bRec smp"
    by (simp add: sample_unfold n c w eta Let_def split: option.splits)
  have s2: "sample_pdf fw ?this' bRec pdf_in smp = sample_pdf fw this bRec pdf_in smp"
    by (simp add: sample_pdf_unfold n c eta e p Let_def split: option.splits)
  show ?thesis
    using p [of bRec meas] s1 s2 by simp
qed

section \<open>Sampling\<close>

text \<open>
  C6 (total internal reflection): in the transmissive branch of both overloads of
  \<open>sample\<close>, when \<open>1 + (etaI / etaT)\<^sup>2 * ((wi . m)\<^sup>2 - 1) < 0\<close> at the sampled micro-normal
  \<open>m\<close>, with the indices ordered by the side of \<open>wi\<close>, \<open>refract\<close> fails and the call
  returns zero with the outgoing direction, the sampled component and the sampled type
  (and the density argument of the second overload) left as they were; zero is also
  returned when the refracted direction is on the side of \<open>wi\<close>.
\<close>

theorem sample_rejects_total_internal_reflection:
  fixes fw :: "'s::real_algebra_1 Framework" and this :: "('i, 's) RoughDielectric"
    and bRec :: "'i BSDFQueryRecord" and smp :: Point2 and pdf_in :: real
  defines "m \<equiv> sampledNormal fw this bRec smp"
    and "etaI \<equiv> sideEtaI this bRec"
    and "etaT \<equiv> sideEtaT this bRec"
  defines "r1 \<equiv> sample fw this bRec smp"
    and "r2 \<equiv> sample_pdf fw this bRec pdf_in smp"
  assumes transmissive: "hasTransmission fw bRec" "\<not> choseReflection fw this bRec smp"
  shows "(1 + (etaI / etaT)\<^sup>2 * ((dot (wi bRec) m)\<^sup>2 - 1) < 0 \<longrightarrow>
            refract (wi bRec) m etaI etaT = None
          \<and> fst r1 = 0 \<and> wo (snd r1) = wo bRec
          \<and> sampledComponent (snd r1) = sampledComponent bRec
          \<and> sampledType (snd r1) = sampledType bRec
          \<and> fst r2 = 0 \<and> wo (fst (snd r2)) = wo bRec
          \<and> sampledComponent (fst (snd r2)) = sampledComponent bRec
          \<and> sampledType (fst (snd r2)) = sampledType bRec
          \<and> snd (snd r2) = pdf_in)
       \<and> (\<forall>wo'. refract (wi bRec) m etaI etaT = Some wo'
                   \<and> cosTheta (wi bRec) * cosTheta wo' \<ge> 0
             \<longrightarrow> fst r1 = 0 \<and> fst r2 = 0)"
proof -
  have nonempty: "\<not> (\<not> hasReflection fw bRec \<and> \<not> hasTransmission fw bRec)"
    using transmissive(1) by simp
  have tir: "refract (wi bRec) m etaI etaT = None"
    if "1 + (etaI / etaT)\<^sup>2 * ((dot (wi bRec) m)\<^sup>2 - 1) < 0"
    using that by (simp only: refract_None_iff)
  have rejected: "r1 = (0, afterChoice fw bRec) \<and> r2 = (0, afterChoice fw bRec, pdf_in)"
    if "refract (wi bRec) m etaI etaT = None"
    using that nonempty transmissive(2)
    unfolding r1_def r2_def m_def etaI_def etaT_def
    by (simp only: sample_unfold sample_pdf_unfold if_False option.case)
  have same_side: "fst r1 = 0 \<and> fst r2 = 0"
    if "refract (wi bRec) m etaI etaT = Some wo'"
      and "cosTheta (wi bRec) * cosTheta wo' \<ge> 0" for wo'
    using that nonempty transmissive(2)
    unfolding r1_def r2_def m_def etaI_def etaT_def
    by (simp add: sample_unfold sample_pdf_unfold Let_def)
  show ?thesis
    using tir rejected same_side by (auto simp del: refract_None_iff)
qed

theorem sample_rejects_total_internal_reflection_witness:
  "refract (Vector (4/5) 0 (- (3/5))) (Vector 0 0 1) (3/2) 1 = None
   \<and> fst (sample fw_ex (this_ex (Vector 0 0 1) (3/2) 1)
             (bRec_ex (Vector (4/5) 0 (- (3/5))) (Vector 0 0 0) (- 1) 8 ERadiance (1/2)) (0, 0)) = 0
   \<and> wo (snd (sample fw_ex (this_ex (Vector 0 0 1) (3/2) 1)
             (bRec_ex (Vector (4/5) 0 (- (3/5))) (Vector 0 0 0) (- 1) 8 ERadiance (1/2)) (0, 0)))
       = Vector 0 0 0
   \<and> fst (sample_pdf fw_ex (this_ex (Vector 0 0 1) (3/2) 1)
             (bRec_ex (Vector (4/5) 0 (- (3/5))) (Vector 0 0 0) (- 1) 8 ERadiance (1/2)) 7 (0, 0)) = 0
   \<and> wo (fst (snd (sample_pdf fw_ex (this_ex (Vector 0 0 1) (3/2) 1)
             (bRec_ex (Vector (4/5) 0 (- (3/5))) (Vector 0 0 0) (- 1) 8 ERadiance (1/2)) 7 (0, 0))))
       = Vector 0 0 0
   \<and> snd (snd (sample_pdf fw_ex (this_ex (Vector 0 0 1) (3/2) 1)
             (bRec_ex (Vector (4/5) 0 (- (3/5))) (Vector 0 0 0) (- 1) 8 ERadiance (1/2)) 7 (0, 0)))
       = 7
   \<and> refract (Vector (4/5) 0 (3/5)) (Vector 0 0 1) (5/4) 1 = Some (Vector (- 1) 0 0)
   \<and> fst (sample fw_ex (this_ex (Vector 0 0 1) 1 (5/4))
             (bRec_ex (Vector (4/5) 0 (3/5)) (Vector 0 0 0) (- 1) 8 ERadiance (1/2)) (0, 0)) = 0
   \<and> fst (sample_pdf fw_ex (this_ex (Vector 0 0 1) 1 (5/4))
             (bRec_ex (Vector (4/5) 0 (3/5)) (Vector 0 0 0) (- 1) 8 ERadiance (1/2)) 7 (0, 0)) = 0"
proof -
  let ?inside = "bRec_ex (Vector (4/5) 0 (- (3/5))) (Vector 0 0 0) (- 1) 8 ERadiance (1/2)"
  let ?grazing = "bRec_ex (Vector (4/5) 0 (3/5)) (Vector 0 0 0) (- 1) 8 ERadiance (1/2)"
  have t1: "hasTransmission fw_ex ?inside" "hasTransmission fw_ex ?grazing"
    by (simp_all add: hasTransmission_def fw_ex_def bRec_ex_def)
  have c1: "\<not> choseReflection fw_ex (this_ex (Vector 0 0 1) (3/2) 1) ?inside (0, 0)"
    "\<not> choseReflection fw_ex (this_ex (Vector 0 0 1) 1 (5/4)) ?grazing (0, 0)"
    by (simp_all add: choseReflection_def hasReflection_def fw_ex_def bRec_ex_def)
  have r1: "refract (Vector (4/5) 0 (- (3/5))) (Vector 0 0 1) (3/2) 1 = None"
    by (simp add: refract_def Let_def dot_def)
  have r2: "refract (Vector (4/5) 0 (3/5)) (Vector 0 0 1) (5/4) 1 = Some (Vector (- 1) 0 0)"
    by (simp add: refract_def Let_def dot_def signum_def vmul_def vsub_def)
  have n: "sampledNormal fw_ex (this_ex (Vector 0 0 1) a b) x y = Vector 0 0 1" for a b x y
    by (simp add: sampledNormal_def this_ex_def dist_ex_def)
  have e1: "sideEtaI (this_ex (Vector 0 0 1) (3/2) 1) ?inside = 3/2"
    "sideEtaT (this_ex (Vector 0 0 1) (3/2) 1) ?inside = 1"
    "sideEtaI (this_ex (Vector 0 0 1) 1 (5/4)) ?grazing = 5/4"
    "sideEtaT (this_ex (Vector 0 0 1) 1 (5/4)) ?grazing = 1"
    by (simp_all add: sideEtaI_def sideEtaT_def this_ex_def bRec_ex_def cosTheta_def)
  have w: "wi ?inside = Vector (4/5) 0 (- (3/5))" "wi ?grazing = Vector (4/5) 0 (3/5)"
    "wo ?inside = Vector 0 0 0" "sampledComponent ?inside = - 1" "sampledType ?inside = 0"
    by (simp_all add: bRec_ex_def)
  note tir = sample_rejects_total_internal_reflection
    [OF t1(1) c1(1), of 7, unfolded n e1 w r1]
  note side = sample_rejects_total_internal_reflection
    [OF t1(2) c1(2), of 7, unfolded n e1 w r2]
  show ?thesis
    using tir side r1 r2
    by (simp add: dot_def cosTheta_def power2_eq_square)
qed

text \<open>
  C9 (a zero result still mutates the query record): with an empty mask the record is
  returned as it was. Once reflection is chosen, both overloads write the reflected
  direction, component \<open>0\<close> and the reflection type into the record, also when the side
  check then makes them return zero; once transmission is chosen and \<open>refract\<close>
  succeeds, they write the refracted direction, component \<open>1\<close> and the transmission
  type, also when the side check then fails. Only total internal reflection (and the
  empty mask) leaves \<open>wo\<close>, \<open>sampledComponent\<close> and \<open>sampledType\<close> unwritten.
\<close>

theorem sample_zero_result_mutates_record:
  fixes fw :: "'s::real_algebra_1 Framework" and this :: "('i, 's) RoughDielectric"
    and bRec :: "'i BSDFQueryRecord" and smp :: Point2 and pdf_in :: real
  defines "m \<equiv> sampledNormal fw this bRec smp"
    and "bRec1 \<equiv> afterChoice fw bRec"
    and "r1 \<equiv> sample fw this bRec smp"
    and "r2 \<equiv> sample_pdf fw this bRec pdf_in smp"
  defines "reflected \<equiv> bRec1\<lparr>wo := reflect (wi bRec) m, sampledComponent := 0,
                               sampledType := EGlossyReflection fw\<rparr>"
    and "refracted \<equiv> (\<lambda>wo'. bRec1\<lparr>wo := wo', sampledComponent := 1,
                                     sampledType := EGlossyTransmission fw\<rparr>)"
  shows "(\<not> hasReflection fw bRec \<and> \<not> hasTransmission fw bRec \<longrightarrow>
            r1 = (0, bRec) \<and> r2 = (0, bRec, pdf_in))
       \<and> (hasReflection fw bRec \<and> choseReflection fw this bRec smp \<longrightarrow>
            snd r1 = reflected \<and> fst (snd r2) = reflected
          \<and> (cosTheta (wi bRec) * cosTheta (reflect (wi bRec) m) \<le> 0 \<longrightarrow>
                r1 = (0, reflected) \<and> r2 = (0, reflected, pdf_in)))
       \<and> (hasTransmission fw bRec \<and> \<not> choseReflection fw this bRec smp \<longrightarrow>
           (refract (wi bRec) m (sideEtaI this bRec) (sideEtaT this bRec) = None \<longrightarrow>
              r1 = (0, bRec1) \<and> r2 = (0, bRec1, pdf_in)
            \<and> wo bRec1 = wo bRec \<and> sampledComponent bRec1 = sampledComponent bRec
            \<and> sampledType bRec1 = sampledType bRec)
         \<and> (\<forall>wo'. refract (wi bRec) m (sideEtaI this bRec) (sideEtaT this bRec) = Some wo' \<longrightarrow>
              snd r1 = refracted wo' \<and> fst (snd r2) = refracted wo'
            \<and> (cosTheta (wi bRec) * cosTheta wo' \<ge> 0 \<longrightarrow>
                  r1 = (0, refracted wo') \<and> r2 = (0, refracted wo', pdf_in))))"
  unfolding m_def bRec1_def reflected_def refracted_def r1_def r2_def
  by (simp add: sample_unfold sample_pdf_unfold Let_def)

theorem sample_zero_result_mutates_record_witness:
  "sample fw_ex (this_ex (Vector 0 0 1) (3/2) 1)
       (bRec_ex (Vector 0 0 1) (Vector 0 0 0) (- 1) 0 ERadiance (1/2)) (0, 0)
     = (0, bRec_ex (Vector 0 0 1) (Vector 0 0 0) (- 1) 0 ERadiance (1/2))
   \<and> sample fw_ex (this_ex (Vector (3/5) 0 (4/5)) (3/2) 1)
       (bRec_ex (Vector (- (4/5)) 0 (3/5)) (Vector 0 0 0) (- 1) 4 ERadiance (1/2)) (0, 0)
     = (0, (bRec_ex (Vector (- (4/5)) 0 (3/5)) (Vector 0 0 0) (- 1) 4 ERadiance (1/2))
             \<lparr>wo := Vector (4/5) 0 (- (3/5)), sampledComponent := 0, sampledType := 4\<rparr>)
   \<and> sample_pdf fw_ex (this_ex (Vector (3/5) 0 (4/5)) (3/2) 1)
       (bRec_ex (Vector (- (4/5)) 0 (3/5)) (Vector 0 0 0) (- 1) 4 ERadiance (1/2)) 7 (0, 0)
     = (0, (bRec_ex (Vector (- (4/5)) 0 (3/5)) (Vector 0 0 0) (- 1) 4 ERadiance (1/2))
             \<lparr>wo := Vector (4/5) 0 (- (3/5)), sampledComponent := 0, sampledType := 4\<rparr>, 7)
   \<and> sample fw_ex (this_ex (Vector 0 0 1) (3/2) 1)
       (bRec_ex (Vector (4/5) 0 (- (3/5))) (Vector 0 0 0) (- 1) 8 ERadiance (1/2)) (0, 0)
     = (0, bRec_ex (Vector (4/5) 0 (- (3/5))) (Vector 0 0 0) (- 1) 8 ERadiance (1/2))
   \<and> sample fw_ex (this_ex (Vector 0 0 1) 1 (5/4))
       (bRec_ex (Vector (4/5) 0 (3/5)) (Vector 0 0 0) (- 1) 8 ERadiance (1/2)) (0, 0)
     = (0, (bRec_ex (Vector (4/5) 0 (3/5)) (Vector 0 0 0) (- 1) 8 ERadiance (1/2))
             \<lparr>wo := Vector (- 1) 0 0, sampledComponent := 1, sampledType := 8\<rparr>)
   \<and> sample_pdf fw_ex (this_ex (Vector 0 0 1) 1 (5/4))
       (bRec_ex (Vector (4/5) 0 (3/5)) (Vector 0 0 0) (- 1) 8 ERadiance (1/2)) 7 (0, 0)
     = (0, (bRec_ex (Vector (4/5) 0 (3/5)) (Vector 0 0 0) (- 1) 8 ERadiance (1/2))
             \<lparr>wo := Vector (- 1) 0 0, sampledComponent := 1, sampledType := 8\<rparr>, 7)"
proof -
  let ?empty = "bRec_ex (Vector 0 0 1) (Vector 0 0 0) (- 1) 0 ERadiance (1/2)"
  let ?tilted = "bRec_ex (Vector (- (4/5)) 0 (3/5)) (Vector 0 0 0) (- 1) 4 ERadiance (1/2)"
  let ?inside = "bRec_ex (Vector (4/5) 0 (- (3/5))) (Vector 0 0 0) (- 1) 8 ERadiance (1/2)"
  let ?grazing = "bRec_ex (Vector (4/5) 0 (3/5)) (Vector 0 0 0) (- 1) 8 ERadiance (1/2)"
  have flags:
    "\<not> hasReflection fw_ex ?empty" "\<not> hasTransmission fw_ex ?empty"
    "hasReflection fw_ex ?tilted" "\<not> hasTransmission fw_ex ?tilted"
    "\<not> hasReflection fw_ex ?inside" "hasTransmission fw_ex ?inside"
    "\<not> hasReflection fw_ex ?grazing" "hasTransmission fw_ex ?grazing"
    by (simp_all add: hasReflection_def hasTransmission_def fw_ex_def bRec_ex_def)
  have n: "sampledNormal fw_ex (this_ex v a b) x y = v" for v a b x y
    by (simp add: sampledNormal_def this_ex_def dist_ex_def)
  have eta: "sideEtaI (this_ex (Vector 0 0 1) (3/2) 1) ?inside = 3/2"
    "sideEtaT (this_ex (Vector 0 0 1) (3/2) 1) ?inside = 1"
    "sideEtaI (this_ex (Vector 0 0 1) 1 (5/4)) ?grazing = 5/4"
    "sideEtaT (this_ex (Vector 0 0 1) 1 (5/4)) ?grazing = 1"
    by (simp_all add: sideEtaI_def sideEtaT_def this_ex_def bRec_ex_def cosTheta_def)
  have w: "wi ?tilted = Vector (- (4/5)) 0 (3/5)" "wi ?inside = Vector (4/5) 0 (- (3/5))"
    "wi ?grazing = Vector (4/5) 0 (3/5)"
    by (simp_all add: bRec_ex_def)
  have r: "reflect (Vector (- (4/5)) 0 (3/5)) (Vector (3/5) 0 (4/5)) = Vector (4/5) 0 (- (3/5))"
    "refract (Vector (4/5) 0 (- (3/5))) (Vector 0 0 1) (3/2) 1 = None"
    "refract (Vector (4/5) 0 (3/5)) (Vector 0 0 1) (5/4) 1 = Some (Vector (- 1) 0 0)"
    by (simp_all add: reflect_def refract_def Let_def dot_def signum_def vmul_def vsub_def)
  have g: "EGlossyReflection fw_ex = 4" "EGlossyTransmission fw_ex = 8"
    by (simp_all add: fw_ex_def)
  show ?thesis
    using sample_zero_result_mutates_record
        [of fw_ex ?empty "this_ex (Vector 0 0 1) (3/2) 1" "(0, 0)" 7]
      sample_zero_result_mutates_record
        [of fw_ex ?tilted "this_ex (Vector (3/5) 0 (4/5)) (3/2) 1" "(0, 0)" 7]
      sample_zero_result_mutates_record
        [of fw_ex ?inside "this_ex (Vector 0 0 1) (3/2) 1" "(0, 0)" 7]
      sample_zero_result_mutates_record
        [of fw_ex ?grazing "this_ex (Vector 0 0 1) 1 (5/4)" "(0, 0)" 7]
    by (simp add: flags n eta w r g choseReflection_def afterChoice_def cosTheta_def)
qed

text \<open>
  C10 (the extra random draw): in both overloads the sampler is advanced by one
  \<open>next1D\<close> exactly when both the reflective and the transmissive component are
  enabled. Otherwise the sampler is returned untouched, the enabled component is the
  one chosen, and the result does not depend on the sampler.
\<close>

theorem sample_next1D_iff_both_components:
  fixes fw :: "'s::real_algebra_1 Framework" and this :: "('i, 's) RoughDielectric"
    and bRec :: "'i BSDFQueryRecord" and smp :: Point2 and pdf_in :: real
  defines "both \<equiv> hasReflection fw bRec \<and> hasTransmission fw bRec"
    and "s1 \<equiv> sampler (snd (sample fw this bRec smp))"
    and "s2 \<equiv> sampler (fst (snd (sample_pdf fw this bRec pdf_in smp)))"
  shows "s1 = (if both then snd (next1D (sampler bRec)) else sampler bRec)
       \<and> s2 = (if both then snd (next1D (sampler bRec)) else sampler bRec)
       \<and> sampleIndex s1 = sampleIndex (sampler bRec) + (if both then 1 else 0)
       \<and> sampleIndex s2 = sampleIndex (sampler bRec) + (if both then 1 else 0)
       \<and> (s1 \<noteq> sampler bRec \<longleftrightarrow> both) \<and> (s2 \<noteq> sampler bRec \<longleftrightarrow> both)
       \<and> (\<not> both \<longrightarrow>
            choseReflection fw this bRec smp = hasReflection fw bRec
          \<and> (\<forall>s'. sample fw this (bRec\<lparr>sampler := s'\<rparr>) smp
                     = (fst (sample fw this bRec smp), (snd (sample fw this bRec smp))\<lparr>sampler := s'\<rparr>)
                 \<and> fst (sample_pdf fw this (bRec\<lparr>sampler := s'\<rparr>) pdf_in smp)
                     = fst (sample_pdf fw this bRec pdf_in smp)))"
proof -
  have s1: "s1 = (if both then snd (next1D (sampler bRec)) else sampler bRec)"
    unfolding s1_def both_def by (simp only: sampler_sample sampler_afterChoice)
  have s2: "s2 = (if both then snd (next1D (sampler bRec)) else sampler bRec)"
    unfolding s2_def both_def by (simp only: sampler_sample_pdf sampler_afterChoice)
  have single: "choseReflection fw this bRec smp = hasReflection fw bRec
      \<and> (\<forall>s'. sample fw this (bRec\<lparr>sampler := s'\<rparr>) smp
                 = (fst (sample fw this bRec smp), (snd (sample fw this bRec smp))\<lparr>sampler := s'\<rparr>)
             \<and> fst (sample_pdf fw this (bRec\<lparr>sampler := s'\<rparr>) pdf_in smp)
                 = fst (sample_pdf fw this bRec pdf_in smp))"
    if "\<not> both"
    using that single_component_choice(1) single_component_sample single_component_sample_pdf
    unfolding both_def by blast
  show ?thesis
    using single by (simp add: s1 s2 next1D_advances next1D_changes)
qed


theorem sample_next1D_iff_both_components_witness:
  "sampleIndex (sampler (snd (sample fw_ex (this_ex (Vector 0 0 1) (3/2) 1)
       (bRec_ex (Vector 0 0 1) (Vector 0 0 0) (- 1) 12 ERadiance (1/2)) (0, 0)))) = 1
   \<and> sampleIndex (sampler (fst (snd (sample_pdf fw_ex (this_ex (Vector 0 0 1) (3/2) 1)
       (bRec_ex (Vector 0 0 1) (Vector 0 0 0) (- 1) 12 ERadiance (1/2)) 7 (0, 0))))) = 1
   \<and> sampleIndex (sampler (snd (sample fw_ex (this_ex (Vector 0 0 1) (3/2) 1)
       (bRec_ex (Vector 0 0 1) (Vector 0 0 0) (- 1) 4 ERadiance (1/2)) (0, 0)))) = 0
   \<and> sampleIndex (sampler (fst (snd (sample_pdf fw_ex (this_ex (Vector 0 0 1) (3/2) 1)
       (bRec_ex (Vector 0 0 1) (Vector 0 0 0) (- 1) 4 ERadiance (1/2)) 7 (0, 0))))) = 0
   \<and> choseReflection fw_ex (this_ex (Vector 0 0 1) (3/2) 1)
       (bRec_ex (Vector 0 0 1) (Vector 0 0 0) (- 1) 4 ERadiance (1/2)) (0, 0)
   \<and> fst (sample fw_ex (this_ex (Vector 0 0 1) (3/2) 1)
       ((bRec_ex (Vector 0 0 1) (Vector 0 0 0) (- 1) 4 ERadiance (1/2))
          \<lparr>sampler := \<lparr>draws = (\<lambda>_. 0), sampleIndex = 5\<rparr>\<rparr>) (0, 0))
     = fst (sample fw_ex (this_ex (Vector 0 0 1) (3/2) 1)
       (bRec_ex (Vector 0 0 1) (Vector 0 0 0) (- 1) 4 ERadiance (1/2)) (0, 0))"
proof -
  let ?rd = "this_ex (Vector 0 0 1) (3/2) 1"
  let ?both = "bRec_ex (Vector 0 0 1) (Vector 0 0 0) (- 1) 12 ERadiance (1/2)"
  let ?single = "bRec_ex (Vector 0 0 1) (Vector 0 0 0) (- 1) 4 ERadiance (1/2)"
  have flags: "hasReflection fw_ex ?both" "hasTransmission fw_ex ?both"
    "hasReflection fw_ex ?single" "\<not> hasTransmission fw_ex ?single"
    by (simp_all add: hasReflection_def hasTransmission_def fw_ex_def bRec_ex_def)
  have idx: "sampleIndex (sampler ?both) = 0" "sampleIndex (sampler ?single) = 0"
    by (simp_all add: bRec_ex_def)
  show ?thesis
    using sample_next1D_iff_both_components [of fw_ex ?rd ?both "(0, 0)" 7]
      sample_next1D_iff_both_components [of fw_ex ?rd ?single "(0, 0)" 7]
    by (simp add: flags idx next1D_advances)
qed

text \<open>
  C7, as amended (the overload that returns a density): once a direction is chosen and
  passes its side check, the overload sets the density to \<open>pdf\<close> of the updated query
  record, where \<open>pdf\<close> is the source's density, which reads the roughness from the
  textures and applies the widening factor itself. If that density is zero the
  result is zero, otherwise it is \<open>eval\<close> of the updated record, not divided by the
  density.
\<close>

theorem sample_pdf_returns_eval_and_pdf:
  fixes fw :: "'s::real_algebra_1 Framework" and this :: "('i, 's) RoughDielectric"
    and bRec :: "'i BSDFQueryRecord" and smp :: Point2 and pdf_in :: real
  defines "m \<equiv> sampledNormal fw this bRec smp"
    and "r \<equiv> sample_pdf fw this bRec pdf_in smp"
  defines "bRec' \<equiv> fst (snd r)"
  assumes nonempty: "hasReflection fw bRec \<or> hasTransmission fw bRec"
    and direction:
      "if choseReflection fw this bRec smp
       then cosTheta (wi bRec) * cosTheta (reflect (wi bRec) m) > 0
       else (\<exists>wo'. refract (wi bRec) m (sideEtaI this bRec) (sideEtaT this bRec) = Some wo'
                   \<and> cosTheta (wi bRec) * cosTheta wo' < 0)"
  shows "snd (snd r) = pdf fw this bRec' ESolidAngle
       \<and> fst r = (if pdf fw this bRec' ESolidAngle = 0 then 0
                  else eval fw this bRec' ESolidAngle)
       \<and> wi bRec' = wi bRec \<and> its bRec' = its bRec"
proof (cases "choseReflection fw this bRec smp")
  case True
  from nonempty have ne: "\<not> (\<not> hasReflection fw bRec \<and> \<not> hasTransmission fw bRec)"
    by simp
  from True direction have "\<not> cosTheta (wi bRec) * cosTheta (reflect (wi bRec) m) \<le> 0"
    by simp
  with True ne show ?thesis
    unfolding r_def bRec'_def m_def
    by (auto simp add: sample_pdf_unfold Let_def)
next
  case False
  from nonempty have ne: "\<not> (\<not> hasReflection fw bRec \<and> \<not> hasTransmission fw bRec)"
    by simp
  from False direction obtain wo' where
    "refract (wi bRec) m (sideEtaI this bRec) (sideEtaT this bRec) = Some wo'"
    and "\<not> cosTheta (wi bRec) * cosTheta wo' \<ge> 0"
    by auto
  with False ne show ?thesis
    unfolding r_def bRec'_def m_def
    by (auto simp add: sample_pdf_unfold Let_def)
qed

theorem sample_pdf_returns_eval_and_pdf_witness:
  "snd (snd (sample_pdf fw_ex (this_ex (Vector 0 0 1) (3/2) 1)
        (bRec_ex (Vector (8/9) (1/9) (4/9)) (Vector 0 0 0) (- 1) 4 ERadiance (1/2)) 0 (0, 0)))
     = pdf fw_ex (this_ex (Vector 0 0 1) (3/2) 1)
        (fst (snd (sample_pdf fw_ex (this_ex (Vector 0 0 1) (3/2) 1)
           (bRec_ex (Vector (8/9) (1/9) (4/9)) (Vector 0 0 0) (- 1) 4 ERadiance (1/2)) 0 (0, 0))))
        ESolidAngle
   \<and> fst (sample_pdf fw_ex (this_ex (Vector 0 0 1) (3/2) 1)
        (bRec_ex (Vector (8/9) (1/9) (4/9)) (Vector 0 0 0) (- 1) 4 ERadiance (1/2)) 0 (0, 0))
     = eval fw_ex (this_ex (Vector 0 0 1) (3/2) 1)
        (fst (snd (sample_pdf fw_ex (this_ex (Vector 0 0 1) (3/2) 1)
           (bRec_ex (Vector (8/9) (1/9) (4/9)) (Vector 0 0 0) (- 1) 4 ERadiance (1/2)) 0 (0, 0))))
        ESolidAngle
   \<and> pdf fw_ex (this_ex (Vector 0 0 1) (3/2) 1)
        (fst (snd (sample_pdf fw_ex (this_ex (Vector 0 0 1) (3/2) 1)
           (bRec_ex (Vector (8/9) (1/9) (4/9)) (Vector 0 0 0) (- 1) 4 ERadiance (1/2)) 0 (0, 0))))
        ESolidAngle = 3 / 10"
proof -
  let ?rd = "this_ex (Vector 0 0 1) (3/2) 1"
  let ?b = "bRec_ex (Vector (8/9) (1/9) (4/9)) (Vector 0 0 0) (- 1) 4 ERadiance (1/2)"
  have nonempty: "hasReflection fw_ex ?b \<or> hasTransmission fw_ex ?b"
    by (simp add: ex_flags)
  have chose: "choseReflection fw_ex ?rd ?b (0, 0)"
    by (simp add: choseReflection_def ex_flags)
  have side: "cosTheta (wi ?b) * cosTheta (reflect (wi ?b) (sampledNormal fw_ex ?rd ?b (0, 0))) > 0"
    by (simp add: ex_sampledNormal bRec_ex_def reflect_ex cosTheta_def)
  have direction:
    "if choseReflection fw_ex ?rd ?b (0, 0)
     then cosTheta (wi ?b) * cosTheta (reflect (wi ?b) (sampledNormal fw_ex ?rd ?b (0, 0))) > 0
     else (\<exists>wo'. refract (wi ?b) (sampledNormal fw_ex ?rd ?b (0, 0))
                     (sideEtaI ?rd ?b) (sideEtaT ?rd ?b) = Some wo'
                 \<and> cosTheta (wi ?b) * cosTheta wo' < 0)"
    using chose side by simp
  have dens: "pdf fw_ex ?rd (fst (snd (sample_pdf fw_ex ?rd ?b 0 (0, 0)))) ESolidAngle = 3 / 10"
    by (simp add: ex_sample_pdf_reflected ex_pdf_reflected)
  show ?thesis
    using sample_pdf_returns_eval_and_pdf [OF nonempty direction, of 0] dens
    by simp
qed

text \<open>
  The density the overload returns is not the density at the unwidened roughness: for
  \<open>wi = (8/9, 1/9, 4/9)\<close> the widening factor is \<open>16/15\<close>, the overload returns \<open>3/10\<close>, and
  the density at the texture roughness would be \<open>9/32\<close>.
\<close>

theorem sample_pdf_density_not_at_actual_roughness:
  "snd (snd (sample_pdf fw_ex (this_ex (Vector 0 0 1) (3/2) 1)
        (bRec_ex (Vector (8/9) (1/9) (4/9)) (Vector 0 0 0) (- 1) 4 ERadiance (1/2)) 0 (0, 0)))
     = 3 / 10
   \<and> pdf_at_actual_roughness fw_ex (this_ex (Vector 0 0 1) (3/2) 1)
        (fst (snd (sample_pdf fw_ex (this_ex (Vector 0 0 1) (3/2) 1)
           (bRec_ex (Vector (8/9) (1/9) (4/9)) (Vector 0 0 0) (- 1) 4 ERadiance (1/2)) 0 (0, 0))))
        ESolidAngle
     = 9 / 32
   \<and> snd (snd (sample_pdf fw_ex (this_ex (Vector 0 0 1) (3/2) 1)
        (bRec_ex (Vector (8/9) (1/9) (4/9)) (Vector 0 0 0) (- 1) 4 ERadiance (1/2)) 0 (0, 0)))
     \<noteq> pdf_at_actual_roughness fw_ex (this_ex (Vector 0 0 1) (3/2) 1)
        (fst (snd (sample_pdf fw_ex (this_ex (Vector 0 0 1) (3/2) 1)
           (bRec_ex (Vector (8/9) (1/9) (4/9)) (Vector 0 0 0) (- 1) 4 ERadiance (1/2)) 0 (0, 0))))
        ESolidAngle"
proof -
  let ?rd = "this_ex (Vector 0 0 1) (3/2) 1"
  let ?b = "bRec_ex (Vector (8/9) (1/9) (4/9)) (Vector 0 0 0) (- 1) 4 ERadiance (1/2)"
  let ?b2 = "?b\<lparr>wo := Vector (- (8/9)) (- (1/9)) (4/9), sampledComponent := 0, sampledType := 4\<rparr>"
  have q: "pdf_at_actual_roughness fw_ex ?rd ?b2 ESolidAngle = 9 / 32"
    by (simp add: pdf_at_actual_roughness_def Let_def ex_written_flags ex_flags)
      (simp add: fw_ex_def this_ex_def dist_ex_def bRec_ex_def cosTheta_def
        signum_def normalize_def vadd_def vmul_def vlength_z dot_def)
  show ?thesis
    by (simp add: ex_sample_pdf_reflected q)
qed

section \<open>Sampling consistency\<close>

text \<open>
  The reflective branch in general. For a unit micro-normal \<open>m\<close> on the side of \<open>wi\<close>,
  the half-vector \<open>eval\<close> and \<open>pdf\<close> recompute from the reflected direction is \<open>m\<close>
  itself, and \<open>eval / pdf\<close> at the sampled direction is the weight of the first overload
  when both components are enabled, and \<open>F\<close> times that weight when only the
  reflective component is.
\<close>

lemma vadd_reflect: "vadd (reflect w m) w = vmul (2 * dot w m) m"
  by (cases w; cases m) (simp add: reflect_def vadd_def vsub_def vmul_def dot_def)

lemma vlength_vmul: "vlength (vmul k m) = \<bar>k\<bar> * vlength m"
proof -
  have "dot (vmul k m) (vmul k m) = k\<^sup>2 * dot m m"
    by (cases m) (simp add: vmul_def dot_def power2_eq_square algebra_simps)
  then show ?thesis
    by (simp add: vlength_def real_sqrt_mult)
qed

lemma vmul_vmul: "vmul a (vmul b m) = vmul (a * b) m"
  by (cases m) (simp add: vmul_def mult.assoc)

lemma vmul_one: "vmul 1 m = m"
  by (cases m) (simp add: vmul_def)

lemma dot_reflect:
  assumes "dot m m = 1"
  shows "dot (reflect w m) m = dot w m"
proof -
  have "dot (reflect w m) m = 2 * dot w m * dot m m - dot w m"
    by (cases w; cases m) (simp add: reflect_def vsub_def vmul_def dot_def algebra_simps)
  with assms show ?thesis by simp
qed

lemma reflection_half_vector:
  assumes unit: "dot m m = 1"
    and side: "cosTheta w * cosTheta (reflect w m) > 0"
    and facing: "dot w m * cosTheta w > 0"
  shows "vmul (signum (cosTheta (reflect w m))) (normalize (vadd (reflect w m) w)) = m"
proof -
  let ?k = "2 * dot w m"
  have "vlength m = 1"
    using unit by (simp add: vlength_def)
  then have len: "vlength (vmul ?k m) = \<bar>?k\<bar>"
    by (simp only: vlength_vmul mult_1_right)
  have k: "?k \<noteq> 0"
    using facing by auto
  have one: "signum (cosTheta (reflect w m)) * ((1 / \<bar>?k\<bar>) * ?k) = 1"
  proof (cases "cosTheta w > 0")
    case True
    with side have "cosTheta (reflect w m) > 0"
      by (simp add: zero_less_mult_iff)
    moreover from True facing have "dot w m > 0"
      by (simp add: zero_less_mult_iff)
    ultimately show ?thesis
      by (simp add: signum_def)
  next
    case False
    with side have neg: "cosTheta w < 0"
      by (cases "cosTheta w = 0") auto
    with side have "cosTheta (reflect w m) < 0"
      by (simp add: zero_less_mult_iff)
    moreover from neg facing have "dot w m < 0"
      by (simp add: zero_less_mult_iff)
    ultimately show ?thesis
      by (simp add: signum_def)
  qed
  have "vmul (signum (cosTheta (reflect w m))) (normalize (vadd (reflect w m) w))
      = vmul (signum (cosTheta (reflect w m)) * ((1 / \<bar>?k\<bar>) * ?k)) m"
    by (simp only: vadd_reflect normalize_def len vmul_vmul)
  also have "\<dots> = m"
    by (simp only: one vmul_one)
  finally show ?thesis .
qed


lemma eval_reflective_branch:
  fixes fw :: "'s::real_algebra_1 Framework" and this :: "('i, 's) RoughDielectric"
  assumes "cosTheta (wi b) * cosTheta (wo b) > 0" and "hasReflection fw b"
    and "vmul (signum (cosTheta (wo b))) (normalize (vadd (wo b) (wi b))) = H"
  shows "eval fw this b ESolidAngle =
     (fresnel fw (dot (wi b) H) (m_extIOR this) (m_intIOR this)
        * md_eval (m_distribution this) H
            (transformRoughness (m_distribution this) (average fw (m_alphaU this (its b))))
            (transformRoughness (m_distribution this) (average fw (m_alphaV this (its b))))
        * md_G (m_distribution this) (wi b) (wo b) H
            (transformRoughness (m_distribution this) (average fw (m_alphaU this (its b))))
            (transformRoughness (m_distribution this) (average fw (m_alphaV this (its b))))
        / (4 * \<bar>cosTheta (wi b)\<bar>)) *\<^sub>R m_specularReflectance this (its b)"
  using assms by (auto simp add: eval_def Let_def hasReflection_def)

lemma weight_ratio_algebra:
  fixes F D G k z P c :: real
  assumes "0 \<le> D" "0 \<le> G" "P \<noteq> 0" "k \<noteq> 0" "z \<noteq> 0" "0 < c"
  shows "(1 / \<bar>P * c * (1 / (4 * k))\<bar>) * (F * D * G / (4 * \<bar>z\<bar>))
           = (F / c) * \<bar>D * G * k / (P * z)\<bar>"
proof -
  have A: "\<bar>D * G * k / (P * z)\<bar> = D * G * \<bar>k\<bar> / (\<bar>P\<bar> * \<bar>z\<bar>)"
    using assms(1,2) by (simp add: abs_mult)
  have B: "\<bar>P * c * (1 / (4 * k))\<bar> = \<bar>P\<bar> * c / (4 * \<bar>k\<bar>)"
    using assms(6) by (simp add: abs_mult)
  have pos: "0 < \<bar>P\<bar>" "0 < \<bar>k\<bar>" "0 < \<bar>z\<bar>"
    using assms(3-5) by simp_all
  show ?thesis
    unfolding A B using pos assms(6) by (simp add: field_simps)
qed

lemma reflective_branch_weight_ratio:
  fixes fw :: "'s::real_algebra_1 Framework" and this :: "('i, 's) RoughDielectric"
    and bRec :: "'i BSDFQueryRecord" and smp :: Point2
  defines "m \<equiv> sampledNormal fw this bRec smp"
    and "alphaU \<equiv> transformRoughness (m_distribution this) (average fw (m_alphaU this (its bRec)))"
    and "alphaV \<equiv> transformRoughness (m_distribution this) (average fw (m_alphaV this (its bRec)))"
    and "factor \<equiv> 1.2 - 0.2 * sqrt \<bar>cosTheta (wi bRec)\<bar>"
    and "bRec' \<equiv> snd (sample fw this bRec smp)"
  defines "F \<equiv> fresnel fw (dot (wi bRec) m) (m_extIOR this) (m_intIOR this)"
  assumes unit: "dot m m = 1"
    and hasR: "hasReflection fw bRec"
    and chose: "choseReflection fw this bRec smp"
    and side: "cosTheta (wi bRec) * cosTheta (reflect (wi bRec) m) > 0"
    and facing: "dot (wi bRec) m * cosTheta (wi bRec) > 0"
    and D: "0 \<le> md_eval (m_distribution this) m alphaU alphaV"
    and G: "0 \<le> md_G (m_distribution this) (wi bRec) (reflect (wi bRec) m) m alphaU alphaV"
    and P: "md_pdf (m_distribution this) m (alphaU * factor) (alphaV * factor) \<noteq> 0"
    and F: "0 < F"
  shows "(1 / pdf fw this bRec' ESolidAngle) *\<^sub>R eval fw this bRec' ESolidAngle
           = (if hasTransmission fw bRec then 1 else F) *\<^sub>R fst (sample fw this bRec smp)"
proof -
  let ?wo = "reflect (wi bRec) m"
  let ?b2 = "(afterChoice fw bRec)\<lparr>wo := ?wo, sampledComponent := 0,
               sampledType := EGlossyReflection fw\<rparr>"
  let ?D = "md_eval (m_distribution this) m alphaU alphaV"
  let ?G = "md_G (m_distribution this) (wi bRec) ?wo m alphaU alphaV"
  let ?P = "md_pdf (m_distribution this) m (alphaU * factor) (alphaV * factor)"
  let ?k = "dot (wi bRec) m"
  let ?z = "cosTheta (wi bRec)"
  let ?R = "m_specularReflectance this (its bRec)"
  have nside: "\<not> ?z * cosTheta ?wo \<le> 0"
    using side by simp
  have s: "sample fw this bRec smp = (\<bar>?D * ?G * ?k / (?P * ?z)\<bar> *\<^sub>R ?R, ?b2)"
    using hasR chose nside
    unfolding m_def alphaU_def alphaV_def factor_def
    by (simp add: sample_unfold Let_def sampleWeight_def)
  have b: "bRec' = ?b2"
    by (simp add: bRec'_def s)
  have fl: "hasReflection fw ?b2" "hasTransmission fw ?b2 = hasTransmission fw bRec"
    using hasR by (simp_all add: hasReflection_def hasTransmission_def)
  have H: "vmul (signum (cosTheta (wo ?b2))) (normalize (vadd (wo ?b2) (wi ?b2))) = m"
    using reflection_half_vector [OF unit side facing] by simp
  have sd: "cosTheta (wi ?b2) * cosTheta (wo ?b2) > 0"
    using side by simp
  have k: "dot (reflect (wi bRec) m) m = ?k"
    by (rule dot_reflect [OF unit])
  have e: "eval fw this ?b2 ESolidAngle = (F * ?D * ?G / (4 * \<bar>?z\<bar>)) *\<^sub>R ?R"
    using eval_reflective_branch [OF sd fl(1) H, of this]
    by (simp add: F_def alphaU_def alphaV_def)
  have p: "pdf fw this ?b2 ESolidAngle
      = \<bar>?P * (if hasTransmission fw bRec then F else 1) * (1 / (4 * ?k))\<bar>"
    using pdf_reflective_branch [OF sd fl(1) H, of this]
    by (simp add: F_def alphaU_def alphaV_def factor_def fl(2) k cong: if_cong)
  have kz: "?k \<noteq> 0" "?z \<noteq> 0"
    using facing by auto
  show ?thesis
  proof (cases "hasTransmission fw bRec")
    case True
    have "(1 / \<bar>?P * F * (1 / (4 * ?k))\<bar>) * (F * ?D * ?G / (4 * \<bar>?z\<bar>))
        = (F / F) * \<bar>?D * ?G * ?k / (?P * ?z)\<bar>"
      by (rule weight_ratio_algebra [OF D G P kz F])
    with True F show ?thesis
      by (simp add: b e p s)
  next
    case False
    have "(1 / \<bar>?P * 1 * (1 / (4 * ?k))\<bar>) * (F * ?D * ?G / (4 * \<bar>?z\<bar>))
        = (F / 1) * \<bar>?D * ?G * ?k / (?P * ?z)\<bar>"
      by (rule weight_ratio_algebra [OF D G P kz]) simp
    with False show ?thesis
      by (simp add: b e p s)
  qed
qed

lemma ex_both_ratio:
  "eval fw_ex (this_ex (Vector 0 0 1) (3/2) 1)
        (snd (sample fw_ex (this_ex (Vector 0 0 1) (3/2) 1)
          (bRec_ex (Vector 0 0 1) (Vector 0 0 0) (- 1) 12 ERadiance 0) (0, 0))) ESolidAngle
       / pdf fw_ex (this_ex (Vector 0 0 1) (3/2) 1)
        (snd (sample fw_ex (this_ex (Vector 0 0 1) (3/2) 1)
          (bRec_ex (Vector 0 0 1) (Vector 0 0 0) (- 1) 12 ERadiance 0) (0, 0))) ESolidAngle
     = fst (sample fw_ex (this_ex (Vector 0 0 1) (3/2) 1)
          (bRec_ex (Vector 0 0 1) (Vector 0 0 0) (- 1) 12 ERadiance 0) (0, 0))"
proof -
  let ?rd = "this_ex (Vector 0 0 1) (3/2) 1"
  let ?b = "bRec_ex (Vector 0 0 1) (Vector 0 0 0) (- 1) 12 ERadiance 0"
  have w: "wi ?b = Vector 0 0 1"
    by (simp add: bRec_ex_def)
  have F: "fresnel fw_ex c (m_extIOR ?rd) (m_intIOR ?rd) = 1 / 25" for c
    by (simp add: fw_ex_def this_ex_def power2_eq_square)
  have chose: "choseReflection fw_ex ?rd ?b (0, 0)"
    by (simp add: choseReflection_def ex_flags F)
      (simp add: bRec_ex_def next1D_def)
  have "(1 / pdf fw_ex ?rd (snd (sample fw_ex ?rd ?b (0, 0))) ESolidAngle)
          *\<^sub>R eval fw_ex ?rd (snd (sample fw_ex ?rd ?b (0, 0))) ESolidAngle
        = (if hasTransmission fw_ex ?b
           then 1
           else fresnel fw_ex (dot (wi ?b) (sampledNormal fw_ex ?rd ?b (0, 0)))
                  (m_extIOR ?rd) (m_intIOR ?rd))
          *\<^sub>R fst (sample fw_ex ?rd ?b (0, 0))"
  proof (rule reflective_branch_weight_ratio)
    show "dot (sampledNormal fw_ex ?rd ?b (0, 0)) (sampledNormal fw_ex ?rd ?b (0, 0)) = 1"
      by (simp add: ex_sampledNormal dot_def)
    show "hasReflection fw_ex ?b"
      by (rule ex_flags)
    show "choseReflection fw_ex ?rd ?b (0, 0)"
      by (rule chose)
    show "0 < cosTheta (wi ?b) * cosTheta (reflect (wi ?b) (sampledNormal fw_ex ?rd ?b (0, 0)))"
      by (simp add: ex_sampledNormal w reflect_normal_ex cosTheta_def)
    show "0 < dot (wi ?b) (sampledNormal fw_ex ?rd ?b (0, 0)) * cosTheta (wi ?b)"
      by (simp add: ex_sampledNormal w dot_def cosTheta_def)
    show "0 < fresnel fw_ex (dot (wi ?b) (sampledNormal fw_ex ?rd ?b (0, 0)))
                (m_extIOR ?rd) (m_intIOR ?rd)"
      by (simp add: F)
  qed (simp_all add: sampledNormal_def this_ex_def dist_ex_def fw_ex_def bRec_ex_def cosTheta_def)
  then show ?thesis
    by (simp add: ex_flags)
qed

text \<open>
  C1 (the weight of the first overload against \<open>eval / pdf\<close>): with only the reflective
  component enabled, at normal incidence and a Fresnel reflectance of \<open>1/25\<close>, the first
  overload of \<open>sample\<close> returns the weight \<open>1/4\<close>, while \<open>eval / pdf\<close> at the sampled
  direction is \<open>1/100\<close>; with only the transmissive component enabled it returns \<open>2/9\<close>,
  while \<open>eval / pdf\<close> is \<open>16/75\<close>. The weight of the first overload lacks the factor \<open>F\<close>
  (or \<open>1 - F\<close>) that \<open>eval\<close> keeps and that \<open>pdf\<close> drops when a single component is enabled.
  With both components enabled and reflection chosen, the same query gives a weight
  equal to \<open>eval / pdf\<close>.
\<close>

theorem sample_weight_not_eval_over_pdf_single_component:
  "fst (sample fw_ex (this_ex (Vector 0 0 1) (3/2) 1)
          (bRec_ex (Vector 0 0 1) (Vector 0 0 0) (- 1) 4 ERadiance (1/2)) (0, 0)) = 1 / 4
   \<and> eval fw_ex (this_ex (Vector 0 0 1) (3/2) 1)
        (snd (sample fw_ex (this_ex (Vector 0 0 1) (3/2) 1)
          (bRec_ex (Vector 0 0 1) (Vector 0 0 0) (- 1) 4 ERadiance (1/2)) (0, 0))) ESolidAngle
       / pdf fw_ex (this_ex (Vector 0 0 1) (3/2) 1)
        (snd (sample fw_ex (this_ex (Vector 0 0 1) (3/2) 1)
          (bRec_ex (Vector 0 0 1) (Vector 0 0 0) (- 1) 4 ERadiance (1/2)) (0, 0))) ESolidAngle
     = 1 / 100
   \<and> fst (sample fw_ex (this_ex (Vector 0 0 1) (3/2) 1)
          (bRec_ex (Vector 0 0 1) (Vector 0 0 0) (- 1) 8 ERadiance (1/2)) (0, 0)) = 2 / 9
   \<and> eval fw_ex (this_ex (Vector 0 0 1) (3/2) 1)
        (snd (sample fw_ex (this_ex (Vector 0 0 1) (3/2) 1)
          (bRec_ex (Vector 0 0 1) (Vector 0 0 0) (- 1) 8 ERadiance (1/2)) (0, 0))) ESolidAngle
       / pdf fw_ex (this_ex (Vector 0 0 1) (3/2) 1)
        (snd (sample fw_ex (this_ex (Vector 0 0 1) (3/2) 1)
          (bRec_ex (Vector 0 0 1) (Vector 0 0 0) (- 1) 8 ERadiance (1/2)) (0, 0))) ESolidAngle
     = 16 / 75
   \<and> eval fw_ex (this_ex (Vector 0 0 1) (3/2) 1)
        (snd (sample fw_ex (this_ex (Vector 0 0 1) (3/2) 1)
          (bRec_ex (Vector 0 0 1) (Vector 0 0 0) (- 1) 12 ERadiance 0) (0, 0))) ESolidAngle
       / pdf fw_ex (this_ex (Vector 0 0 1) (3/2) 1)
        (snd (sample fw_ex (this_ex (Vector 0 0 1) (3/2) 1)
          (bRec_ex (Vector 0 0 1) (Vector 0 0 0) (- 1) 12 ERadiance 0) (0, 0))) ESolidAngle
     = fst (sample fw_ex (this_ex (Vector 0 0 1) (3/2) 1)
          (bRec_ex (Vector 0 0 1) (Vector 0 0 0) (- 1) 12 ERadiance 0) (0, 0))"
proof -
  let ?rd = "this_ex (Vector 0 0 1) (3/2) 1"
  let ?r = "bRec_ex (Vector 0 0 1) (Vector 0 0 0) (- 1) 4 ERadiance (1/2)"
  let ?t = "bRec_ex (Vector 0 0 1) (Vector 0 0 0) (- 1) 8 ERadiance (1/2)"
  let ?r2 = "?r\<lparr>wo := Vector 0 0 1, sampledComponent := 0, sampledType := 4\<rparr>"
  let ?t2 = "?t\<lparr>wo := Vector 0 0 (- 1), sampledComponent := 1, sampledType := 8\<rparr>"
  have fields: "wi ?r = Vector 0 0 1" "wi ?t = Vector 0 0 1" "its ?r = ()" "its ?t = ()"
    "quantity ?t = ERadiance"
    by (simp_all add: bRec_ex_def)
  have chose: "choseReflection fw_ex ?rd ?r (0, 0)" "\<not> choseReflection fw_ex ?rd ?t (0, 0)"
    by (simp_all add: choseReflection_def ex_flags)
  have same: "afterChoice fw_ex ?r = ?r" "afterChoice fw_ex ?t = ?t"
    by (simp_all add: afterChoice_def ex_flags)
  have g: "EGlossyReflection fw_ex = 4" "EGlossyTransmission fw_ex = 8"
    by (simp_all add: fw_ex_def)
  have eta: "sideEtaI ?rd ?t = 1" "sideEtaT ?rd ?t = 3/2"
    by (simp_all add: sideEtaI_def sideEtaT_def this_ex_def bRec_ex_def cosTheta_def)
  have tex: "m_specularReflectance ?rd () = 1/4" "m_specularTransmittance ?rd () = 1/2"
    by (simp_all add: this_ex_def)
  have s_r: "sample fw_ex ?rd ?r (0, 0) = (1 / 4, ?r2)"
    by (simp add: sample_unfold ex_flags chose ex_sampledNormal same fields reflect_normal_ex
        cosTheta_def g ex_sampleWeight_normal tex Let_def)
  have s_t: "sample fw_ex ?rd ?t (0, 0) = (2 / 9, ?t2)"
    by (simp add: sample_unfold ex_flags chose ex_sampledNormal same fields eta refract_ex
        cosTheta_def g ex_sampleWeight_normal tex Let_def)
  have e_r: "eval fw_ex ?rd ?r2 ESolidAngle = 1 / 800"
    by (simp add: eval_def Let_def fw_ex_def this_ex_def dist_ex_def bRec_ex_def cosTheta_def
        signum_def normalize_def vadd_def vmul_def vlength_z dot_def power2_eq_square)
  have p_r: "pdf fw_ex ?rd ?r2 ESolidAngle = 1 / 8"
    by (simp add: pdf_def Let_def fw_ex_def this_ex_def dist_ex_def bRec_ex_def cosTheta_def
        signum_def normalize_def vadd_def vmul_def vlength_z dot_def)
  have e_t: "eval fw_ex ?rd ?t2 ESolidAngle = 24 / 25"
    by (simp add: eval_def Let_def fw_ex_def this_ex_def dist_ex_def bRec_ex_def cosTheta_def
        signum_def normalize_def vadd_def vmul_def vlength_z dot_def power2_eq_square)
  have p_t: "pdf fw_ex ?rd ?t2 ESolidAngle = 9 / 2"
    by (simp add: pdf_def Let_def fw_ex_def this_ex_def dist_ex_def bRec_ex_def cosTheta_def
        signum_def normalize_def vadd_def vmul_def vlength_z dot_def power2_eq_square)
  have single: "fst (sample fw_ex ?rd ?r (0, 0)) = 1 / 4
      \<and> eval fw_ex ?rd (snd (sample fw_ex ?rd ?r (0, 0))) ESolidAngle
          / pdf fw_ex ?rd (snd (sample fw_ex ?rd ?r (0, 0))) ESolidAngle = 1 / 100
      \<and> fst (sample fw_ex ?rd ?t (0, 0)) = 2 / 9
      \<and> eval fw_ex ?rd (snd (sample fw_ex ?rd ?t (0, 0))) ESolidAngle
          / pdf fw_ex ?rd (snd (sample fw_ex ?rd ?t (0, 0))) ESolidAngle = 16 / 75"
    by (simp add: s_r s_t e_r p_r e_t p_t)
  show ?thesis
    using single ex_both_ratio by (simp only: simp_thms)
qed

end
